theory Spec2Isabelle
  imports Main "HOL-Library.Sublist"
begin

section \<open>Scope\<close>

text \<open>
  A shallow embedding of the CardDAV engine of carddav.cpp: the export half of
  \<open>CardDavVCardConverter\<close> (\<open>convertContactToVCard\<close>, \<open>contactProcessed\<close>) and, of
  \<open>CardDav\<close>, the principal discovery (\<open>fetchUserInformation\<close>,
  \<open>userInformationResponse\<close>, \<open>fetchAddressbookUrls\<close>), the per-address-book delta
  (\<open>downsyncAddressbookContent\<close>, \<open>fetchImmediateDelta\<close>, \<open>immediateDeltaResponse\<close>,
  \<open>fetchContactMetadata\<close>, \<open>contactMetadataResponse\<close>), the contact fetch and its
  application (\<open>fetchContacts\<close>,
  \<open>contactsResponse\<close>, \<open>contactAddModsComplete\<close>, \<open>downsyncComplete\<close>) and the upsync
  (\<open>transformIntoAddressbookSpecificGuid\<close>, \<open>setUpsyncContactGuid\<close>, \<open>upsyncUpdates\<close>,
  \<open>upsyncResponse\<close>, \<open>upsyncComplete\<close>).

  Every slot takes the engine state and returns the new one. What the engine does to the
  outside (a request handed to the network, a signal, a zero-delay timer) is appended to
  the \<open>events\<close> of the state, in program order. Log statements are left out, and with
  them the \<open>operator[]\<close> reads that occur only inside a log statement. The request
  counters are C++ \<open>int\<close>s that count requests in flight; they are integers here.
  The chained form \<open>QString("%1://%2...").arg(scheme).arg(host)\<close> is the concatenation
  of the pieces as long as the scheme and the host hold no \<open>%n\<close> marker, which no scheme
  or host that \<open>QUrl\<close> returns does.
\<close>

section \<open>QString operations used by carddav.cpp\<close>

text \<open>
  Strings are character lists. \<open>QString::startsWith\<close> is \<^const>\<open>prefix\<close> and
  \<open>QString::endsWith\<close> is \<^const>\<open>suffix\<close>. The multi-argument form
  \<open>QStringLiteral("%1:AB:%2:").arg(a, b)\<close> replaces every marker in one pass, so it is
  plain concatenation of the pieces.
\<close>

fun string_of_nat :: "nat \<Rightarrow> string" where
  "string_of_nat n =
     (if n < 10 then [char_of (48 + n)]
      else string_of_nat (n div 10) @ [char_of (48 + n mod 10)])"

declare string_of_nat.simps [simp del]

definition QString_number :: "int \<Rightarrow> string" where
  \<comment> \<open>\<open>QString::number(int)\<close>, and \<open>arg(int)\<close> without the \<open>L\<close> flag: base 10, C locale.\<close>
  "QString_number i =
     (if i < 0 then CHR ''-'' # string_of_nat (nat (- i)) else string_of_nat (nat i))"

fun indexOf_char :: "char \<Rightarrow> string \<Rightarrow> int" where
  \<comment> \<open>\<open>QString::indexOf(QChar)\<close>: the first position of the character, \<open>-1\<close> when absent.\<close>
  "indexOf_char c [] = - 1"
| "indexOf_char c (x # xs) =
     (if x = c then 0
      else (let r = indexOf_char c xs in if r < 0 then - 1 else r + 1))"

fun lastIndexOf_from :: "string \<Rightarrow> string \<Rightarrow> nat \<Rightarrow> int" where
  \<comment> \<open>the backwards scan: the greatest position at most \<open>from\<close> where \<open>pat\<close> occurs\<close>
  "lastIndexOf_from s pat 0 = (if prefix pat s then 0 else - 1)"
| "lastIndexOf_from s pat (Suc i) =
     (if prefix pat (drop (Suc i) s) then int (Suc i) else lastIndexOf_from s pat i)"

definition lastIndexOf :: "string \<Rightarrow> string \<Rightarrow> int" where
  \<comment> \<open>\<open>QString::lastIndexOf(str)\<close>: the greatest position where \<open>str\<close> occurs, \<open>-1\<close> when it
      does not occur.\<close>
  "lastIndexOf s pat = lastIndexOf_from s pat (length s)"

definition insert_at :: "string \<Rightarrow> nat \<Rightarrow> string \<Rightarrow> string" where
  \<comment> \<open>\<open>QString::insert(position, str)\<close> for a position inside the string.\<close>
  "insert_at s i t = take i s @ t @ drop i s"

definition toLower_char :: "char \<Rightarrow> char" where
  "toLower_char c =
     (if 65 \<le> (of_char c :: nat) \<and> (of_char c :: nat) \<le> 90
      then char_of ((of_char c :: nat) + 32) else c)"

definition contains_ci :: "string \<Rightarrow> string \<Rightarrow> bool" where
  \<comment> \<open>\<open>s.contains(pat, Qt::CaseInsensitive)\<close>, with ASCII case folding.\<close>
  "contains_ci s pat = sublist (map toLower_char pat) (map toLower_char s)"

definition CRLF :: string where
  "CRLF = [CHR 0x0D, CHR 0x0A]"

definition mid :: "string \<Rightarrow> int \<Rightarrow> string" where
  \<comment> \<open>\<open>QString::mid(position)\<close> for the positions the source passes (never negative):
      the rest of the string, empty when the position is past the end.\<close>
  "mid s p = drop (nat p) s"

section \<open>QMap access\<close>

text \<open>
  A \<open>QMap\<close> is a partial map. \<open>value(key)\<close> reads with a default-constructed value for
  a missing key. The non-const \<open>operator[]\<close>, which the engine uses on the maps of the
  syncer, also inserts that default-constructed value when the key is missing;
  \<open>qmap_touch\<close> is this insertion. The default of a \<open>QString\<close> and of a \<open>QStringList\<close>
  is the empty list.
\<close>

definition qmap_value :: "('k \<rightharpoonup> 'a list) \<Rightarrow> 'k \<Rightarrow> 'a list" where
  "qmap_value m k = (case m k of None \<Rightarrow> [] | Some v \<Rightarrow> v)"

definition qmap_touch :: "('k \<rightharpoonup> 'a list) \<Rightarrow> 'k \<Rightarrow> ('k \<rightharpoonup> 'a list)" where
  "qmap_touch m k = (case m k of None \<Rightarrow> m(k \<mapsto> []) | Some v \<Rightarrow> m)"

definition qmap_contains :: "('k \<rightharpoonup> 'v) \<Rightarrow> 'k \<Rightarrow> bool" where
  "qmap_contains m k = (m k \<noteq> None)"

definition qmap_remove :: "('k \<rightharpoonup> 'v) \<Rightarrow> 'k \<Rightarrow> ('k \<rightharpoonup> 'v)" where
  "qmap_remove m k = m(k := None)"

section \<open>Data model\<close>

record QUrl =
  url_scheme :: string
  url_userInfo :: string
  url_host :: string
  url_port :: int  \<comment> \<open>\<open>-1\<close> when the URL names no port\<close>
  url_path :: string
  url_query :: string
  url_fragment :: string

definition QUrl_isEmpty :: "QUrl \<Rightarrow> bool" where
  "QUrl_isEmpty u =
     (url_scheme u = [] \<and> url_userInfo u = [] \<and> url_host u = [] \<and> url_port u = - 1
      \<and> url_path u = [] \<and> url_query u = [] \<and> url_fragment u = [])"

definition QUrl_toString :: "QUrl \<Rightarrow> string" where
  \<comment> \<open>the URL a \<open>QUrl\<close> value stands for, written out from its components\<close>
  "QUrl_toString u =
     (if url_scheme u = [] then [] else url_scheme u @ '':'')
     @ (if url_userInfo u = [] \<and> url_host u = [] \<and> url_port u = - 1 then []
        else ''//'' @ (if url_userInfo u = [] then [] else url_userInfo u @ ''@'')
             @ url_host u
             @ (if url_port u = - 1 then [] else '':'' @ QString_number (url_port u)))
     @ url_path u
     @ (if url_query u = [] then [] else ''?'' @ url_query u)
     @ (if url_fragment u = [] then [] else ''#'' @ url_fragment u)"

record QContactName =
  firstName :: string
  lastName :: string
  name_rest :: string  \<comment> \<open>prefix, middle name and suffix\<close>

record QContact =
  contact_id :: string  \<comment> \<open>\<open>c.id().toString()\<close>\<close>
  guid_details :: "string list"  \<comment> \<open>the values of the \<open>QContactGuid\<close> details, in order\<close>
  name_detail :: QContactName  \<comment> \<open>\<open>c.detail<QContactName>()\<close>, all empty when there is none\<close>
  other_details :: string

definition contact_guid :: "QContact \<Rightarrow> string" where
  \<comment> \<open>\<open>c.detail<QContactGuid>().guid()\<close>: the first guid detail, empty when there is none.\<close>
  "contact_guid c = (case guid_details c of [] \<Rightarrow> [] | g # _ \<Rightarrow> g)"

record QVersitProperty =
  prop_name :: string
  prop_value :: string
  prop_params :: string  \<comment> \<open>groups and parameters\<close>

type_synonym QVersitDocument = "QVersitProperty list"

record AddressBookInformation =
  ab_url :: string
  ab_displayName :: string
  ab_ctag :: string
  ab_syncToken :: string

datatype ModificationType = Uninitialized | Addition | Modification | Deletion

record ContactInformation =
  ci_modType :: ModificationType
  ci_uri :: string
  ci_guid :: string
  ci_etag :: string

record FullContactInformation =
  fci_contact :: QContact
  fci_unsupportedProperties :: "string list"
  fci_etag :: string

datatype ResponseType =
  UserPrincipalResponse | AddressbookInformationResponse | OtherResponse

datatype DiscoveryStage = DiscoveryStarted | DiscoveryRedirected | DiscoveryTryRoot

text \<open>The state of the \<open>Syncer\<close> that the engine reads and writes through \<open>q\<close>.\<close>

record Syncer =
  m_accountId :: int
  m_defaultAddressbook :: string
  m_addressbookCtags :: "string \<rightharpoonup> string"
  m_addressbookSyncTokens :: "string \<rightharpoonup> string"
  m_addressbookContactGuids :: "string \<rightharpoonup> string list"
  m_contactUids :: "string \<rightharpoonup> string"
  m_contactUris :: "string \<rightharpoonup> string"
  m_contactEtags :: "string \<rightharpoonup> string"
  m_contactIds :: "string \<rightharpoonup> string"
  m_contactUnsupportedProperties :: "string \<rightharpoonup> string list"
  m_serverAdditions :: "string \<rightharpoonup> ContactInformation list"
  m_serverModifications :: "string \<rightharpoonup> ContactInformation list"
  m_serverDeletions :: "string \<rightharpoonup> ContactInformation list"
  m_serverAdditionIndices :: "string \<Rightarrow> (string \<rightharpoonup> nat)"
  m_serverModificationIndices :: "string \<Rightarrow> (string \<rightharpoonup> nat)"
  m_serverAddModsByUid :: "string \<Rightarrow> (string \<times> QContact) list"

text \<open>
  \<open>m_serverAddModsByUid\<close> is a \<open>QMultiMap\<close>: each key holds the list of its values, most
  recently inserted first, and \<open>contains(key)\<close> means that the list is not empty. The two
  index maps are nested \<open>QMap\<close>s whose outer default is the empty map.
\<close>

text \<open>
  Requests handed to the \<open>RequestGenerator\<close>, replies, and what the engine lets the rest of
  the program observe: requests sent (with the \<open>addressbookUrl\<close> and \<open>contactGuid\<close>
  properties set on the reply), signals emitted, and zero-delay timers scheduled.
\<close>

datatype request =
  CurrentUserInformation string
| AddressbookUrls string string
| SyncTokenDelta string string string
| ContactEtags string string
| ContactMultiget string string "string list"
| UpsyncAddMod string string string string
| UpsyncDeletion string string string

datatype slot = DownsyncCompleteSlot | UpsyncCompleteSlot

datatype event =
  Sent request string string
| Error int  \<comment> \<open>\<open>errorOccurred(code)\<close>\<close>
| ErrorNoCode  \<comment> \<open>\<open>emit error()\<close>\<close>
| SingleShot slot
| RemoteChanges "QContact list" "QContact list" "QContact list"
| UpsyncCompleted

record QNetworkReply =
  reply_error :: bool  \<comment> \<open>\<open>error() != QNetworkReply::NoError\<close>\<close>
  reply_httpStatus :: int
  reply_redirect :: QUrl  \<comment> \<open>the redirection target, an empty URL when there is none\<close>
  reply_url :: QUrl
  reply_data :: string
  reply_rawHeaders :: "(string \<times> string) list"
  reply_addressbookUrl :: string
  reply_contactGuid :: string

record CardDav =
  q :: Syncer
  m_serverUrl :: string
  m_discoveryStage :: DiscoveryStage
  m_downsyncRequests :: int
  m_upsyncRequests :: int
  m_remoteAdditions :: "QContact list"
  m_remoteModifications :: "QContact list"
  m_remoteRemovals :: "QContact list"
  uuids_drawn :: nat  \<comment> \<open>how many times \<open>QUuid::createUuid\<close> has been called\<close>
  events :: "event list"

text \<open>
  The collaborators whose code is outside carddav.cpp are parameters of the model: the
  request generator (only whether it returns a reply), the reply parser, the Qt URL parser,
  the Versit exporter and writer, the display-label helpers of the contacts cache, the
  random UUID source, and the two \<open>Syncer\<close> methods the upsync calls.
  \<open>significantDifferences\<close> receives pointers to the two contacts; it is a predicate here,
  one that leaves both contacts as they are. \<open>parseContactData\<close> may fill
  \<open>m_contactUids\<close> for the additions it parses, so it also returns the syncer state.
  \<open>parseContactMetadata\<close> compares the ETag listing with the state of the syncer, which it
  therefore reads.
\<close>

record Env =
  request_ok :: "request \<Rightarrow> bool"
  QUrl_parse :: "string \<Rightarrow> QUrl"
  parseUserPrincipal :: "string \<Rightarrow> string \<times> ResponseType"
  parseAddressbookInformation :: "string \<Rightarrow> string \<Rightarrow> AddressBookInformation list"
  parseSyncTokenDelta :: "string \<Rightarrow> ContactInformation list \<times> string"
  parseContactMetadata :: "string \<Rightarrow> string \<Rightarrow> Syncer \<Rightarrow> ContactInformation list"
  parseContactData :: "string \<Rightarrow> string \<Rightarrow> Syncer \<Rightarrow> Syncer \<times> (string \<times> FullContactInformation) list"
  migrateGuidData :: "string \<Rightarrow> string \<Rightarrow> string \<Rightarrow> Syncer \<Rightarrow> Syncer"
  significantDifferences :: "QContact \<Rightarrow> QContact \<Rightarrow> bool"
  exportDetails :: "QContact \<Rightarrow> QVersitDocument list"
  writeDocuments :: "QVersitDocument list \<Rightarrow> string"
  generateDisplayLabel :: "QContact \<Rightarrow> string"
  decomposeDisplayLabel :: "string \<Rightarrow> QContactName \<Rightarrow> QContactName"
  createUuid :: "nat \<Rightarrow> string"

definition emit :: "event \<Rightarrow> CardDav \<Rightarrow> CardDav" where
  "emit e s = s\<lparr>events := events s @ [e]\<rparr>"

section \<open>vCard converter: export\<close>

definition found_property :: "string \<Rightarrow> QVersitDocument \<Rightarrow> bool" where
  \<comment> \<open>the two search loops of \<open>contactProcessed\<close>: some property has exactly this name\<close>
  "found_property n d = (List.find (\<lambda>p. prop_name p = n) d \<noteq> None)"

definition contactProcessed :: "Env \<Rightarrow> QContact \<Rightarrow> QVersitDocument \<Rightarrow> QVersitDocument" where
  "contactProcessed env c d =
     (let foundFN = found_property ''FN'' d;
          foundN = found_property ''N'' d
      in if \<not> foundFN \<or> \<not> foundN then
           (let displaylabel = generateDisplayLabel env c;
                d1 = (if \<not> foundFN
                      then d @ [\<lparr>prop_name = ''FN'', prop_value = displaylabel, prop_params = []\<rparr>]
                      else d)
            in if \<not> foundN then
                 (let name = decomposeDisplayLabel env displaylabel (name_detail c);
                      name' = (if firstName name = [] then name\<lparr>firstName := displaylabel\<rparr>
                               else name);
                      nvalue = lastName name' @ '';'' @ firstName name' @ '';;;''
                  in d1 @ [\<lparr>prop_name = ''N'', prop_value = nvalue, prop_params = []\<rparr>])
               else d1)
         else d)"

definition exportContacts :: "Env \<Rightarrow> QContact \<Rightarrow> QVersitDocument list" where
  \<comment> \<open>\<open>e.exportContacts(exportList); e.documents()\<close>: the exporter builds the documents
      from the details and calls the handler's \<open>contactProcessed\<close> on each of them.\<close>
  "exportContacts env c = map (contactProcessed env c) (exportDetails env c)"

definition add_unsupported :: "string \<Rightarrow> string \<Rightarrow> string" where
  \<comment> \<open>the body of the loop that adds the unsupported properties back\<close>
  "add_unsupported retn propStr =
     (let endIdx = lastIndexOf retn ''END:VCARD''
      in if endIdx > 0 then insert_at retn (nat endIdx) (propStr @ CRLF) else retn)"

definition convertContactToVCard :: "Env \<Rightarrow> QContact \<Rightarrow> string list \<Rightarrow> string" where
  "convertContactToVCard env c unsupportedProperties =
     foldl add_unsupported (writeDocuments env (exportContacts env c)) unsupportedProperties"

section \<open>GUID transformation\<close>

definition guid_prefix :: "int \<Rightarrow> string \<Rightarrow> string" where
  \<comment> \<open>\<open>QStringLiteral("%1:AB:%2:").arg(QString::number(accountId), addressbookUrl)\<close>\<close>
  "guid_prefix accountId addressbookUrl =
     QString_number accountId @ '':AB:'' @ addressbookUrl @ '':''"

definition transformIntoAddressbookSpecificGuid :: "string \<Rightarrow> int \<Rightarrow> string \<Rightarrow> string" where
  "transformIntoAddressbookSpecificGuid guidstr accountId addressbookUrl =
     (if prefix (guid_prefix accountId addressbookUrl) guidstr then guidstr
      else if prefix (QString_number accountId @ '':AB:'') guidstr then guidstr
      else if prefix (QString_number accountId @ '':'') guidstr
        then guid_prefix accountId addressbookUrl @ mid guidstr (indexOf_char CHR '':'' guidstr + 1)
        else guid_prefix accountId addressbookUrl @ guidstr)"

definition setUpsyncContactGuid :: "QContact \<Rightarrow> string \<Rightarrow> QContact" where
  \<comment> \<open>every guid detail but the first is removed, then the first (a new one when there
      was none) gets the uid and is saved\<close>
  "setUpsyncContactGuid c uid = c\<lparr>guid_details := [uid]\<rparr>"

section \<open>Discovery\<close>

definition wellKnownUrl :: "QUrl \<Rightarrow> string" where
  \<comment> \<open>\<open>QStringLiteral("%1://%2/.well-known/carddav").arg(scheme).arg(host)\<close>\<close>
  "wellKnownUrl u = url_scheme u @ ''://'' @ url_host u @ ''/.well-known/carddav''"

definition rootUrl :: "QUrl \<Rightarrow> string" where
  \<comment> \<open>\<open>QStringLiteral("%1://%2/").arg(scheme).arg(host)\<close>\<close>
  "rootUrl u = url_scheme u @ ''://'' @ url_host u @ ''/''"

definition redirectUrl :: "QUrl \<Rightarrow> QUrl \<Rightarrow> string" where
  \<comment> \<open>\<open>QStringLiteral("%1://%2%3")\<close> filled from the redirect, with the scheme and the host
      of the original request where the redirect has none\<close>
  "redirectUrl orig redir =
     (if url_scheme redir = [] then url_scheme orig else url_scheme redir) @ ''://'' @
     (if url_host redir = [] then url_host orig else url_host redir) @ url_path redir"

definition fetchUserInformation :: "Env \<Rightarrow> CardDav \<Rightarrow> CardDav" where
  "fetchUserInformation env s =
     (let serverUrl = QUrl_parse env (m_serverUrl s);
          firstRequest = (m_discoveryStage s = DiscoveryStarted);
          s1 = s\<lparr>m_serverUrl :=
                   (if firstRequest \<and> (url_path serverUrl = [] \<or> url_path serverUrl = ''/'')
                    then wellKnownUrl serverUrl else m_serverUrl s)\<rparr>
      in if \<not> request_ok env (CurrentUserInformation (m_serverUrl s1))
         then emit ErrorNoCode s1
         else emit (Sent (CurrentUserInformation (m_serverUrl s1)) [] []) s1)"

definition fetchAddressbookUrls :: "Env \<Rightarrow> string \<Rightarrow> CardDav \<Rightarrow> CardDav" where
  "fetchAddressbookUrls env userPath s =
     (if \<not> request_ok env (AddressbookUrls (m_serverUrl s) userPath)
      then emit ErrorNoCode s
      else emit (Sent (AddressbookUrls (m_serverUrl s) userPath) [] []) s)"

section \<open>Per-address-book delta\<close>

definition fetchImmediateDelta :: "Env \<Rightarrow> string \<Rightarrow> string \<Rightarrow> CardDav \<Rightarrow> CardDav" where
  "fetchImmediateDelta env addressbookUrl syncToken s =
     (if \<not> request_ok env (SyncTokenDelta (m_serverUrl s) addressbookUrl syncToken)
      then emit ErrorNoCode s
      else emit (Sent (SyncTokenDelta (m_serverUrl s) addressbookUrl syncToken) addressbookUrl [])
             (s\<lparr>m_downsyncRequests := m_downsyncRequests s + 1\<rparr>))"

definition fetchContactMetadata :: "Env \<Rightarrow> string \<Rightarrow> CardDav \<Rightarrow> CardDav" where
  "fetchContactMetadata env addressbookUrl s =
     (if \<not> request_ok env (ContactEtags (m_serverUrl s) addressbookUrl)
      then emit ErrorNoCode s
      else emit (Sent (ContactEtags (m_serverUrl s) addressbookUrl) addressbookUrl [])
             (s\<lparr>m_downsyncRequests := m_downsyncRequests s + 1\<rparr>))"

definition set_ctag :: "string \<Rightarrow> string \<Rightarrow> CardDav \<Rightarrow> CardDav" where
  \<comment> \<open>\<open>q->m_addressbookCtags[url] = ctag\<close>\<close>
  "set_ctag url v s = s\<lparr>q := (q s)\<lparr>m_addressbookCtags := (m_addressbookCtags (q s))(url \<mapsto> v)\<rparr>\<rparr>"

definition set_syncToken :: "string \<Rightarrow> string \<Rightarrow> CardDav \<Rightarrow> CardDav" where
  \<comment> \<open>\<open>q->m_addressbookSyncTokens[url] = token\<close>\<close>
  "set_syncToken url v s =
     s\<lparr>q := (q s)\<lparr>m_addressbookSyncTokens := (m_addressbookSyncTokens (q s))(url \<mapsto> v)\<rparr>\<rparr>"

definition no_changes :: "CardDav \<Rightarrow> CardDav" where
  \<comment> \<open>\<open>m_downsyncRequests += 1; QTimer::singleShot(0, this, SLOT(downsyncComplete()))\<close>\<close>
  "no_changes s =
     emit (SingleShot DownsyncCompleteSlot) (s\<lparr>m_downsyncRequests := m_downsyncRequests s + 1\<rparr>)"

definition downsyncAddressbook :: "Env \<Rightarrow> AddressBookInformation \<Rightarrow> CardDav \<Rightarrow> CardDav" where
  \<comment> \<open>the body of the loop of \<open>downsyncAddressbookContent\<close>\<close>
  "downsyncAddressbook env info s0 =
     (let s = (if m_defaultAddressbook (q s0) = []
               then s0\<lparr>q := (q s0)\<lparr>m_defaultAddressbook := ab_url info\<rparr>\<rparr> else s0)
      in if ab_syncToken info = [] \<and> ab_ctag info = [] then
           fetchContactMetadata env (ab_url info) (set_ctag (ab_url info) (ab_ctag info) s)
         else if ab_syncToken info = [] then
           (let existingCtag = qmap_value (m_addressbookCtags (q s)) (ab_url info);
                s1 = s\<lparr>q := (q s)\<lparr>m_addressbookCtags :=
                                      qmap_touch (m_addressbookCtags (q s)) (ab_url info)\<rparr>\<rparr>
            in if existingCtag = [] then
                 fetchContactMetadata env (ab_url info) (set_ctag (ab_url info) (ab_ctag info) s1)
               else if existingCtag \<noteq> ab_ctag info then
                 fetchContactMetadata env (ab_url info) (set_ctag (ab_url info) (ab_ctag info) s1)
               else no_changes s1)
         else
           (let existingSyncToken = qmap_value (m_addressbookSyncTokens (q s)) (ab_url info);
                s1 = s\<lparr>q := (q s)\<lparr>m_addressbookSyncTokens :=
                                      qmap_touch (m_addressbookSyncTokens (q s)) (ab_url info)\<rparr>\<rparr>;
                s2 = (if ab_ctag info \<noteq> [] then set_ctag (ab_url info) (ab_ctag info) s1 else s1)
            in if existingSyncToken = [] then
                 fetchContactMetadata env (ab_url info)
                   (set_syncToken (ab_url info) (ab_syncToken info) s2)
               else if existingSyncToken \<noteq> ab_syncToken info then
                 fetchImmediateDelta env (ab_url info) existingSyncToken
                   (set_syncToken (ab_url info) (ab_syncToken info) s2)
               else no_changes s2))"

definition downsyncAddressbookContent :: "Env \<Rightarrow> AddressBookInformation list \<Rightarrow> CardDav \<Rightarrow> CardDav" where
  "downsyncAddressbookContent env infos s = foldl (\<lambda>s' info. downsyncAddressbook env info s') s infos"

definition userInformationResponse :: "Env \<Rightarrow> QNetworkReply \<Rightarrow> CardDav \<Rightarrow> CardDav" where
  "userInformationResponse env reply s =
     (if reply_error reply then
        (let httpError = reply_httpStatus reply;
             oldServerUrl = QUrl_parse env (m_serverUrl s)
         in if m_discoveryStage s = DiscoveryStarted \<and> (httpError = 404 \<or> httpError = 405) then
              (if \<not> suffix ''.well-known/carddav'' (url_path oldServerUrl) then
                 fetchUserInformation env (s\<lparr>m_serverUrl := wellKnownUrl oldServerUrl\<rparr>)
               else
                 fetchUserInformation env
                   (s\<lparr>m_discoveryStage := DiscoveryTryRoot, m_serverUrl := rootUrl oldServerUrl\<rparr>))
            else emit (Error httpError) s)
      else
        (let redir = reply_redirect reply
         in if \<not> QUrl_isEmpty redir then
              (let orig = reply_url reply
               in if url_path orig \<noteq> url_path redir then
                    (if suffix ''.well-known/carddav'' (url_path orig) then
                       fetchUserInformation env
                         (s\<lparr>m_serverUrl := redirectUrl orig redir,
                            m_discoveryStage := DiscoveryRedirected\<rparr>)
                     else emit (Error 301) s)
                  else emit (Error 301) s)
            else
              (case parseUserPrincipal env (reply_data reply) of
                 (userPath, responseType) \<Rightarrow>
                   if responseType = UserPrincipalResponse then
                     (if userPath = [] then emit ErrorNoCode s
                      else fetchAddressbookUrls env userPath s)
                   else if responseType = AddressbookInformationResponse then
                     (let infos = parseAddressbookInformation env (reply_data reply) []
                      in if infos = [] then emit ErrorNoCode s
                         else downsyncAddressbookContent env infos s)
                   else emit ErrorNoCode s)))"

section \<open>Full contact fetch and application of the remote delta\<close>

definition contactAddModsComplete_step ::
  "string \<Rightarrow> Syncer \<times> QContact list \<Rightarrow> ContactInformation \<Rightarrow> Syncer \<times> QContact list" where
  "contactAddModsComplete_step addressbookUrl acc del =
     (case acc of (qs, removed) \<Rightarrow>
        (let guid0 = ci_guid del;
             pre = guid_prefix (m_accountId qs) addressbookUrl;
             guid = (if \<not> qmap_contains (m_contactIds qs) guid0 \<and> prefix pre guid0
                     then QString_number (m_accountId qs) @ '':'' @ mid guid0 (int (length pre))
                     else guid0)
         in if \<not> qmap_contains (m_contactIds qs) guid then (qs, removed)
            else
              (let doomed = \<lparr>contact_id = qmap_value (m_contactIds qs) guid,
                             guid_details = [guid],
                             name_detail = \<lparr>firstName = [], lastName = [], name_rest = []\<rparr>,
                             other_details = []\<rparr>
               in (qs\<lparr>m_contactUids := qmap_remove (m_contactUids qs) guid,
                      m_contactUris := qmap_remove (m_contactUris qs) guid,
                      m_contactEtags := qmap_remove (m_contactEtags qs) guid,
                      m_contactIds := qmap_remove (m_contactIds qs) guid,
                      m_contactUnsupportedProperties :=
                        qmap_remove (m_contactUnsupportedProperties qs) guid,
                      m_addressbookContactGuids :=
                        (m_addressbookContactGuids qs)(addressbookUrl \<mapsto>
                           remove1 guid (qmap_value (m_addressbookContactGuids qs) addressbookUrl))\<rparr>,
                   removed @ [doomed]))))"

definition contactAddModsComplete :: "string \<Rightarrow> CardDav \<Rightarrow> CardDav" where
  \<comment> \<open>the loop condition reads \<open>q->m_serverDeletions[addressbookUrl]\<close> at least once, which
      inserts the key when it is missing\<close>
  "contactAddModsComplete addressbookUrl s =
     (let qs0 = (q s)\<lparr>m_serverDeletions := qmap_touch (m_serverDeletions (q s)) addressbookUrl\<rparr>
      in case foldl (contactAddModsComplete_step addressbookUrl) (qs0, [])
                (qmap_value (m_serverDeletions (q s)) addressbookUrl) of
           (qs, removed) \<Rightarrow>
             emit (SingleShot DownsyncCompleteSlot)
               (s\<lparr>q := qs, m_remoteRemovals := m_remoteRemovals s @ removed\<rparr>))"

definition downsyncComplete :: "CardDav \<Rightarrow> CardDav" where
  "downsyncComplete s =
     (let s1 = s\<lparr>m_downsyncRequests := m_downsyncRequests s - 1\<rparr>
      in if m_downsyncRequests s1 = 0
         then emit (RemoteChanges (m_remoteAdditions s1) (m_remoteModifications s1)
                      (m_remoteRemovals s1)) s1
         else s1)"

definition fetchContacts_step ::
  "string \<Rightarrow> Syncer \<times> string list \<Rightarrow> ContactInformation \<Rightarrow> Syncer \<times> string list" where
  "fetchContacts_step addressbookUrl acc info =
     (case acc of (qs, contactUris) \<Rightarrow>
        (if ci_modType info = Addition then
           (qs\<lparr>m_serverAdditionIndices := (m_serverAdditionIndices qs)(addressbookUrl :=
                   (m_serverAdditionIndices qs addressbookUrl)(ci_uri info \<mapsto>
                      length (qmap_value (m_serverAdditions qs) addressbookUrl))),
                m_serverAdditions := (m_serverAdditions qs)(addressbookUrl \<mapsto>
                   qmap_value (m_serverAdditions qs) addressbookUrl @ [info])\<rparr>,
            contactUris @ [ci_uri info])
         else if ci_modType info = Modification then
           (qs\<lparr>m_serverModificationIndices := (m_serverModificationIndices qs)(addressbookUrl :=
                   (m_serverModificationIndices qs addressbookUrl)(ci_uri info \<mapsto>
                      length (qmap_value (m_serverModifications qs) addressbookUrl))),
                m_serverModifications := (m_serverModifications qs)(addressbookUrl \<mapsto>
                   qmap_value (m_serverModifications qs) addressbookUrl @ [info])\<rparr>,
            contactUris @ [ci_uri info])
         else if ci_modType info = Deletion then
           (qs\<lparr>m_serverDeletions := (m_serverDeletions qs)(addressbookUrl \<mapsto>
                   qmap_value (m_serverDeletions qs) addressbookUrl @ [info])\<rparr>,
            contactUris)
         else (qs, contactUris)))"

definition fetchContacts :: "Env \<Rightarrow> string \<Rightarrow> ContactInformation list \<Rightarrow> CardDav \<Rightarrow> CardDav" where
  "fetchContacts env addressbookUrl amrInfo s =
     (case foldl (fetchContacts_step addressbookUrl) (q s, []) amrInfo of
        (qs, contactUris) \<Rightarrow>
          (let s1 = s\<lparr>q := qs\<rparr>
           in if contactUris = [] then contactAddModsComplete addressbookUrl s1
              else if \<not> request_ok env (ContactMultiget (m_serverUrl s1) addressbookUrl contactUris)
                then emit ErrorNoCode s1
                else emit (Sent (ContactMultiget (m_serverUrl s1) addressbookUrl contactUris)
                             addressbookUrl []) s1))"

definition contactMetadataResponse :: "Env \<Rightarrow> QNetworkReply \<Rightarrow> CardDav \<Rightarrow> CardDav" where
  "contactMetadataResponse env reply s =
     (let addressbookUrl = reply_addressbookUrl reply
      in if reply_error reply then emit (Error (reply_httpStatus reply)) s
         else fetchContacts env addressbookUrl
                (parseContactMetadata env (reply_data reply) addressbookUrl (q s)) s)"

definition immediateDeltaResponse :: "Env \<Rightarrow> QNetworkReply \<Rightarrow> CardDav \<Rightarrow> CardDav" where
  "immediateDeltaResponse env reply s =
     (let addressbookUrl = reply_addressbookUrl reply
      in if reply_error reply then fetchContactMetadata env addressbookUrl s
         else (case parseSyncTokenDelta env (reply_data reply) of
                 (infos, newSyncToken) \<Rightarrow>
                   fetchContacts env addressbookUrl infos
                     (set_syncToken addressbookUrl newSyncToken s)))"

definition update_at :: "'a list \<Rightarrow> nat \<Rightarrow> ('a \<Rightarrow> 'a) \<Rightarrow> 'a list" where
  \<comment> \<open>\<open>list[i].field = v\<close>; the indices stored by \<open>fetchContacts\<close> are always in range\<close>
  "update_at xs i f = (if i < length xs then xs[i := f (xs ! i)] else xs)"

definition contactsResponse_step ::
  "string \<Rightarrow> Syncer \<times> QContact list \<times> QContact list \<Rightarrow> string \<times> FullContactInformation
     \<Rightarrow> Syncer \<times> QContact list \<times> QContact list" where
  "contactsResponse_step addressbookUrl acc entry =
     (case acc of (qs, added, modified) \<Rightarrow>
      case entry of (uri, info) \<Rightarrow>
        (let c = fci_contact info; guid = contact_guid c
         in case m_serverAdditionIndices qs addressbookUrl uri of
              Some idx \<Rightarrow>
                (let qs1 = qs\<lparr>m_serverAdditions := (m_serverAdditions qs)(addressbookUrl \<mapsto>
                                 update_at (qmap_value (m_serverAdditions qs) addressbookUrl) idx
                                   (\<lambda>i. i\<lparr>ci_guid := guid\<rparr>)),
                              m_contactEtags := (m_contactEtags qs)(guid \<mapsto> fci_etag info),
                              m_contactUris := (m_contactUris qs)(guid \<mapsto> uri),
                              m_contactUnsupportedProperties :=
                                (m_contactUnsupportedProperties qs)(guid \<mapsto>
                                   fci_unsupportedProperties info),
                              m_addressbookContactGuids :=
                                (m_addressbookContactGuids qs)(addressbookUrl \<mapsto>
                                   qmap_value (m_addressbookContactGuids qs) addressbookUrl @ [guid]),
                              m_contactUids := qmap_touch (m_contactUids qs) guid\<rparr>;
                     uid = qmap_value (m_contactUids qs) guid;
                     a = (if qmap_contains (m_contactIds qs) guid
                          then c\<lparr>contact_id := qmap_value (m_contactIds qs) guid\<rparr> else c)
                 in (qs1\<lparr>m_serverAddModsByUid := (m_serverAddModsByUid qs1)(uid :=
                            (addressbookUrl, c) # m_serverAddModsByUid qs1 uid)\<rparr>,
                     added @ [a], modified))
            | None \<Rightarrow>
                (case m_serverModificationIndices qs addressbookUrl uri of
                   Some idx \<Rightarrow>
                     (let qs1 = qs\<lparr>m_contactUnsupportedProperties :=
                                     (m_contactUnsupportedProperties qs)(guid \<mapsto>
                                        fci_unsupportedProperties info),
                                   m_contactEtags := (m_contactEtags qs)(guid \<mapsto> fci_etag info),
                                   m_contactUids := qmap_touch (m_contactUids qs) guid\<rparr>;
                          uid = qmap_value (m_contactUids qs) guid;
                          c' = (if \<not> qmap_contains (m_contactIds qs) guid then c
                                else c\<lparr>contact_id := qmap_value (m_contactIds qs) guid\<rparr>)
                      in (qs1\<lparr>m_serverAddModsByUid := (m_serverAddModsByUid qs1)(uid :=
                                 (addressbookUrl, c') # m_serverAddModsByUid qs1 uid)\<rparr>,
                          added, modified @ [c']))
                 | None \<Rightarrow> (qs, added, modified))))"

definition contactsResponse :: "Env \<Rightarrow> QNetworkReply \<Rightarrow> CardDav \<Rightarrow> CardDav" where
  "contactsResponse env reply s =
     (let addressbookUrl = reply_addressbookUrl reply
      in if reply_error reply then emit (Error (reply_httpStatus reply)) s
         else (case parseContactData env (reply_data reply) addressbookUrl (q s) of
                 (qs0, addMods) \<Rightarrow>
                   (case foldl (contactsResponse_step addressbookUrl) (qs0, [], []) addMods of
                      (qs, added, modified) \<Rightarrow>
                        contactAddModsComplete addressbookUrl
                          (s\<lparr>q := qs,
                             m_remoteAdditions := m_remoteAdditions s @ added,
                             m_remoteModifications := m_remoteModifications s @ modified\<rparr>))))"

section \<open>Upsync\<close>

record upsync_locals =
  hadNonSpuriousChanges :: bool
  spuriousModifications :: nat

text \<open>
  Each loop of \<open>upsyncUpdates\<close> runs its body on the contacts in order. A body returns
  \<open>Inr\<close> with the new state to go on with the next contact (also after \<open>continue\<close>), and
  \<open>Inl\<close> with the final state where the source does \<open>emit error(); return;\<close>.
\<close>

fun upsync_loop :: "('a \<Rightarrow> 'b \<Rightarrow> CardDav + 'b) \<Rightarrow> 'a list \<Rightarrow> 'b \<Rightarrow> CardDav + 'b" where
  "upsync_loop body [] acc = Inr acc"
| "upsync_loop body (x # xs) acc =
     (case body x acc of Inl s \<Rightarrow> Inl s | Inr acc' \<Rightarrow> upsync_loop body xs acc')"

definition new_uid :: "Env \<Rightarrow> CardDav \<Rightarrow> string" where
  \<comment> \<open>\<open>QUuid::createUuid().toString().replace(QRegularExpression("[\\-{}]"), QString())\<close>\<close>
  "new_uid env s =
     filter (\<lambda>ch. ch \<noteq> CHR ''-'' \<and> ch \<noteq> CHR ''{'' \<and> ch \<noteq> CHR ''}'') (createUuid env (uuids_drawn s))"

definition upsync_addition ::
  "Env \<Rightarrow> string \<Rightarrow> QContact \<Rightarrow> CardDav \<times> upsync_locals \<Rightarrow> CardDav + CardDav \<times> upsync_locals" where
  "upsync_addition env addressbookUrl c acc =
     (case acc of (s, l) \<Rightarrow>
        (let uid = new_uid env s;
             guid = guid_prefix (m_accountId (q s)) addressbookUrl @ uid;
             uri = addressbookUrl @ ''/'' @ uid @ ''.vcf'';
             s1 = s\<lparr>uuids_drawn := Suc (uuids_drawn s),
                    q := (q s)\<lparr>m_contactUids := (m_contactUids (q s))(guid \<mapsto> uid),
                                m_contactUris := (m_contactUris (q s))(guid \<mapsto> uri),
                                m_contactIds := (m_contactIds (q s))(guid \<mapsto> contact_id c)\<rparr>\<rparr>;
             vcard = convertContactToVCard env (setUpsyncContactGuid c uid) [];
             req = UpsyncAddMod (m_serverUrl s1) uri [] vcard
         in if \<not> request_ok env req then Inl (emit ErrorNoCode s1)
            else Inr (emit (Sent req addressbookUrl guid)
                        (s1\<lparr>m_upsyncRequests := m_upsyncRequests s1 + 1\<rparr>),
                      l\<lparr>hadNonSpuriousChanges := True\<rparr>)))"

datatype guid_lookup = Unknown CardDav | Known string string CardDav

definition lookup_modification :: "Env \<Rightarrow> string \<Rightarrow> QContact \<Rightarrow> CardDav \<Rightarrow> guid_lookup" where
  \<comment> \<open>the first part of the body of the modifications loop: \<open>Unknown\<close> where the source
      does \<open>continue\<close>, otherwise the address-book guid and the server uid\<close>
  "lookup_modification env addressbookUrl c s =
     (let oldguidstr = contact_guid c
      in if oldguidstr = [] then Unknown s
         else
           (let guidstr = transformIntoAddressbookSpecificGuid oldguidstr (m_accountId (q s))
                            addressbookUrl;
                uidstr = qmap_value (m_contactUids (q s)) guidstr;
                s1 = s\<lparr>q := (q s)\<lparr>m_contactUids := qmap_touch (m_contactUids (q s)) guidstr\<rparr>\<rparr>
            in if uidstr = [] then
                 (if qmap_value (m_contactUids (q s1)) oldguidstr \<noteq> [] then
                    (let s2 = s1\<lparr>q := migrateGuidData env oldguidstr guidstr addressbookUrl (q s1)\<rparr>
                     in Known guidstr (qmap_value (m_contactUids (q s2)) guidstr) s2)
                  else Unknown s1)
               else Known guidstr uidstr s1))"

definition is_spurious :: "Env \<Rightarrow> QContact \<Rightarrow> (string \<times> QContact) list \<Rightarrow> bool" where
  \<comment> \<open>the inner loop: \<open>spurious\<close> stays true unless some downsynced copy differs\<close>
  "is_spurious env c addressbookContacts =
     (List.find (\<lambda>ac. significantDifferences env c (snd ac)) addressbookContacts = None)"

definition upsync_modification ::
  "Env \<Rightarrow> string \<Rightarrow> QContact \<Rightarrow> CardDav \<times> upsync_locals \<Rightarrow> CardDav + CardDav \<times> upsync_locals" where
  "upsync_modification env addressbookUrl c0 acc =
     (case acc of (s, l) \<Rightarrow>
      case lookup_modification env addressbookUrl c0 s of
        Unknown s' \<Rightarrow> Inr (s', l)
      | Known guidstr uidstr s1 \<Rightarrow>
          (let c = setUpsyncContactGuid c0 uidstr
           in if m_serverAddModsByUid (q s1) uidstr \<noteq> []
                 \<and> is_spurious env c (m_serverAddModsByUid (q s1) uidstr)
              then Inr (s1, l\<lparr>spuriousModifications := spuriousModifications l + 1\<rparr>)
              else
                (let vcard = convertContactToVCard env c
                               (qmap_value (m_contactUnsupportedProperties (q s1)) guidstr);
                     req = UpsyncAddMod (m_serverUrl s1)
                             (qmap_value (m_contactUris (q s1)) guidstr)
                             (qmap_value (m_contactEtags (q s1)) guidstr) vcard;
                     s2 = s1\<lparr>q := (q s1)\<lparr>
                            m_contactUnsupportedProperties :=
                              qmap_touch (m_contactUnsupportedProperties (q s1)) guidstr,
                            m_contactUris := qmap_touch (m_contactUris (q s1)) guidstr,
                            m_contactEtags := qmap_touch (m_contactEtags (q s1)) guidstr\<rparr>\<rparr>
                 in if \<not> request_ok env req then Inl (emit ErrorNoCode s2)
                    else Inr (emit (Sent req addressbookUrl guidstr)
                                (s2\<lparr>m_upsyncRequests := m_upsyncRequests s2 + 1\<rparr>),
                              l\<lparr>hadNonSpuriousChanges := True\<rparr>))))"

definition lookup_removal :: "Env \<Rightarrow> string \<Rightarrow> QContact \<Rightarrow> CardDav \<Rightarrow> (string \<times> CardDav) option" where
  \<comment> \<open>the first part of the body of the removals loop: \<open>None\<close> where the source does
      \<open>continue\<close>, otherwise the address-book guid and the state after a migration\<close>
  "lookup_removal env addressbookUrl c s =
     (let oldguidstr = contact_guid c;
          guidstr = transformIntoAddressbookSpecificGuid oldguidstr (m_accountId (q s))
                      addressbookUrl
      in if qmap_value (m_contactUris (q s)) guidstr = [] then
           (if qmap_value (m_contactUris (q s)) oldguidstr \<noteq> [] then
              Some (guidstr,
                    s\<lparr>q := migrateGuidData env oldguidstr guidstr addressbookUrl (q s)\<rparr>)
            else None)
         else Some (guidstr, s))"

definition clear_contact_state :: "string \<Rightarrow> string \<Rightarrow> Syncer \<Rightarrow> Syncer" where
  \<comment> \<open>"clear state data for this (deleted) contact": the five statements after the
      request has been created\<close>
  "clear_contact_state addressbookUrl guidstr qs =
     qs\<lparr>m_contactEtags := qmap_remove (m_contactEtags qs) guidstr,
        m_contactUris := qmap_remove (m_contactUris qs) guidstr,
        m_contactIds := qmap_remove (m_contactIds qs) guidstr,
        m_contactUids := qmap_remove (m_contactUids qs) guidstr,
        m_addressbookContactGuids :=
          (m_addressbookContactGuids qs)(addressbookUrl \<mapsto>
             remove1 guidstr (qmap_value (m_addressbookContactGuids qs) addressbookUrl))\<rparr>"

definition upsync_removal ::
  "Env \<Rightarrow> string \<Rightarrow> QContact \<Rightarrow> CardDav \<times> upsync_locals \<Rightarrow> CardDav + CardDav \<times> upsync_locals" where
  "upsync_removal env addressbookUrl c acc =
     (case acc of (s, l) \<Rightarrow>
      case lookup_removal env addressbookUrl c s of
        None \<Rightarrow> Inr (s, l)
      | Some (guidstr, s1) \<Rightarrow>
          (let req = UpsyncDeletion (m_serverUrl s1)
                       (qmap_value (m_contactUris (q s1)) guidstr)
                       (qmap_value (m_contactEtags (q s1)) guidstr);
               s2 = s1\<lparr>q := (q s1)\<lparr>
                      m_contactUris := qmap_touch (m_contactUris (q s1)) guidstr,
                      m_contactEtags := qmap_touch (m_contactEtags (q s1)) guidstr\<rparr>\<rparr>
           in if \<not> request_ok env req then Inl (emit ErrorNoCode s2)
              else Inr (emit (Sent req addressbookUrl [])
                          (s2\<lparr>q := clear_contact_state addressbookUrl guidstr (q s2),
                              m_upsyncRequests := m_upsyncRequests s2 + 1\<rparr>),
                        l\<lparr>hadNonSpuriousChanges := True\<rparr>)))"

definition upsyncUpdates ::
  "Env \<Rightarrow> string \<Rightarrow> QContact list \<Rightarrow> QContact list \<Rightarrow> QContact list \<Rightarrow> CardDav \<Rightarrow> CardDav" where
  "upsyncUpdates env addressbookUrl added modified removed s =
     (case upsync_loop (upsync_addition env addressbookUrl) added
             (s, \<lparr>hadNonSpuriousChanges = False, spuriousModifications = 0\<rparr>) of
        Inl s' \<Rightarrow> s'
      | Inr acc1 \<Rightarrow>
     (case upsync_loop (upsync_modification env addressbookUrl) modified acc1 of
        Inl s' \<Rightarrow> s'
      | Inr acc2 \<Rightarrow>
     (case upsync_loop (upsync_removal env addressbookUrl) removed acc2 of
        Inl s' \<Rightarrow> s'
      | Inr (s3, l) \<Rightarrow>
          if \<not> hadNonSpuriousChanges l \<or> (added = [] \<and> modified = [] \<and> removed = [])
          then emit (SingleShot UpsyncCompleteSlot)
                 (s3\<lparr>m_upsyncRequests := m_upsyncRequests s3 + 1\<rparr>)
          else s3)))"

definition upsyncComplete :: "CardDav \<Rightarrow> CardDav" where
  "upsyncComplete s =
     (let s1 = s\<lparr>m_upsyncRequests := m_upsyncRequests s - 1\<rparr>
      in if m_upsyncRequests s1 = 0 then emit UpsyncCompleted s1 else s1)"

definition response_etag :: "QNetworkReply \<Rightarrow> string" where
  \<comment> \<open>the value of the first raw header whose name contains "etag", ignoring case\<close>
  "response_etag reply =
     (case List.find (\<lambda>h. contains_ci (fst h) ''etag'') (reply_rawHeaders reply) of
        None \<Rightarrow> []
      | Some h \<Rightarrow> snd h)"

definition upsyncResponse :: "QNetworkReply \<Rightarrow> CardDav \<Rightarrow> CardDav" where
  "upsyncResponse reply s =
     (let guid = reply_contactGuid reply
      in if reply_error reply \<and> reply_httpStatus reply \<noteq> 405
         then emit (Error (reply_httpStatus reply)) s
         else
           (let etag = response_etag reply;
                s1 = (if guid \<noteq> [] \<and> etag \<noteq> []
                      then s\<lparr>q := (q s)\<lparr>m_contactEtags := (m_contactEtags (q s))(guid \<mapsto> etag)\<rparr>\<rparr>
                      else s)
            in upsyncComplete s1))"

section \<open>Delta strategies\<close>

datatype strategy = SyncCollection string | FullListing | NoDelta

definition strategy_event :: "string \<Rightarrow> string \<Rightarrow> strategy \<Rightarrow> event" where
  \<comment> \<open>what the engine does for an address book under a strategy: the REPORT it sends,
      or the zero-delay timer that will decrement the pending count\<close>
  "strategy_event serverUrl url st =
     (case st of
        SyncCollection token \<Rightarrow> Sent (SyncTokenDelta serverUrl url token) url []
      | FullListing \<Rightarrow> Sent (ContactEtags serverUrl url) url []
      | NoDelta \<Rightarrow> SingleShot DownsyncCompleteSlot)"

definition claimed_strategy :: "Syncer \<Rightarrow> AddressBookInformation \<Rightarrow> strategy" where
  \<comment> \<open>The selection in the words of the specification: a sync token that differs from
      the cached one gives a sync-collection REPORT with the cached token, one that equals
      it gives no request; without a sync token, a CTag equal to the cached one gives no
      request; everything else gives the full ETag listing.\<close>
  "claimed_strategy qs info =
     (if ab_syncToken info \<noteq> [] then
        (if ab_syncToken info \<noteq> qmap_value (m_addressbookSyncTokens qs) (ab_url info)
         then SyncCollection (qmap_value (m_addressbookSyncTokens qs) (ab_url info))
         else NoDelta)
      else if ab_ctag info \<noteq> [] \<and> ab_ctag info = qmap_value (m_addressbookCtags qs) (ab_url info)
        then NoDelta
        else FullListing)"

definition selected_strategy :: "Syncer \<Rightarrow> AddressBookInformation \<Rightarrow> strategy" where
  \<comment> \<open>The same selection, except that a sync token met for the first time (no cached
      token) gives the full ETag listing.\<close>
  "selected_strategy qs info =
     (if ab_syncToken info \<noteq> [] then
        (if qmap_value (m_addressbookSyncTokens qs) (ab_url info) = [] then FullListing
         else if ab_syncToken info \<noteq> qmap_value (m_addressbookSyncTokens qs) (ab_url info)
         then SyncCollection (qmap_value (m_addressbookSyncTokens qs) (ab_url info))
         else NoDelta)
      else if ab_ctag info \<noteq> [] \<and> ab_ctag info = qmap_value (m_addressbookCtags qs) (ab_url info)
        then NoDelta
        else FullListing)"

definition first_with_delta_activity :: "Syncer \<Rightarrow> AddressBookInformation list \<Rightarrow> string option" where
  \<comment> \<open>In the words of the specification: the first address book in enumeration order for
      which a delta request is made.\<close>
  "first_with_delta_activity qs infos =
     map_option ab_url (List.find (\<lambda>info. selected_strategy qs info \<noteq> NoDelta) infos)"

definition first_addressbook :: "AddressBookInformation list \<Rightarrow> string" where
  \<comment> \<open>the first non-empty URL in enumeration order, empty when there is none\<close>
  "first_addressbook infos =
     (case List.find (\<lambda>info. ab_url info \<noteq> []) infos of None \<Rightarrow> [] | Some info \<Rightarrow> ab_url info)"

section \<open>The manual delta\<close>

definition find_guid_by_uri :: "Syncer \<Rightarrow> string \<Rightarrow> string \<Rightarrow> string option" where
  \<comment> \<open>the guid of the address book whose stored URI is the given one\<close>
  "find_guid_by_uri qs addressbookUrl uri =
     List.find (\<lambda>g. qmap_value (m_contactUris qs) g = uri)
       (qmap_value (m_addressbookContactGuids qs) addressbookUrl)"

definition manual_delta :: "Syncer \<Rightarrow> string \<Rightarrow> (string \<times> string) list \<Rightarrow> ContactInformation list" where
  \<comment> \<open>Modelled from the spec: \<open>ReplyParser::parseContactMetadata\<close> is not in carddav.cpp.
      The specification says that the ETags of every resource are compared with
      \<open>addressbook_contact_guids[u]\<close> and \<open>contact_etags\<close>: a URI that the state does not
      have is an addition, a URI of the state that the listing does not have is a deletion,
      the same URI with another ETag is a modification. The listing is the list of
      (URI, ETag) pairs of the reply.\<close>
  "manual_delta qs addressbookUrl listing =
     concat (map (\<lambda>entry.
                    case find_guid_by_uri qs addressbookUrl (fst entry) of
                      None \<Rightarrow> [\<lparr>ci_modType = Addition, ci_uri = fst entry, ci_guid = [],
                                 ci_etag = snd entry\<rparr>]
                    | Some g \<Rightarrow>
                        if qmap_value (m_contactEtags qs) g \<noteq> snd entry
                        then [\<lparr>ci_modType = Modification, ci_uri = fst entry, ci_guid = g,
                               ci_etag = snd entry\<rparr>]
                        else [])
               listing)
     @ concat (map (\<lambda>g. if qmap_value (m_contactUris qs) g \<in> fst ` set listing then []
                          else [\<lparr>ci_modType = Deletion, ci_uri = qmap_value (m_contactUris qs) g,
                                 ci_guid = g, ci_etag = []\<rparr>])
                 (qmap_value (m_addressbookContactGuids qs) addressbookUrl))"

definition parseContactMetadata_spec ::
  "(string \<Rightarrow> (string \<times> string) list) \<Rightarrow> string \<Rightarrow> string \<Rightarrow> Syncer \<Rightarrow> ContactInformation list" where
  \<comment> \<open>Modelled from the spec: the parser decodes the multistatus body into the listing
      (the decoding of XML is a parameter) and computes the manual delta from it.\<close>
  "parseContactMetadata_spec decode data addressbookUrl qs =
     manual_delta qs addressbookUrl (decode data)"

section \<open>A concrete environment\<close>

text \<open>
  Stand-ins for the collaborators, small enough to evaluate, on which the model is run at
  concrete inputs. Every request is accepted; a URL is split at \<open>://\<close> and at the first
  slash after the host; a display label is decomposed into its first and last
  space-separated token when it has at least two.
\<close>

definition test_QUrl_parse :: "string \<Rightarrow> QUrl" where
  "test_QUrl_parse s =
     (let sch = takeWhile (\<lambda>ch. ch \<noteq> CHR '':'') s;
          rest = drop (length sch + 3) s
      in \<lparr>url_scheme = sch, url_userInfo = [],
          url_host = takeWhile (\<lambda>ch. ch \<noteq> CHR ''/'') rest, url_port = - 1,
          url_path = dropWhile (\<lambda>ch. ch \<noteq> CHR ''/'') rest,
          url_query = [], url_fragment = []\<rparr>)"

fun fields :: "char \<Rightarrow> string \<Rightarrow> string \<Rightarrow> string list" where
  \<comment> \<open>split at a separator; the second argument is the field being read\<close>
  "fields sep cur [] = (if cur = [] then [] else [cur])"
| "fields sep cur (ch # rest) =
     (if ch = sep then cur # fields sep [] rest else fields sep (cur @ [ch]) rest)"

definition test_decode_listing :: "string \<Rightarrow> (string \<times> string) list" where
  \<comment> \<open>a listing written as \<open>uri=etag;uri=etag;\<close>\<close>
  "test_decode_listing d =
     map (\<lambda>e. (takeWhile (\<lambda>ch. ch \<noteq> CHR ''='') e, drop 1 (dropWhile (\<lambda>ch. ch \<noteq> CHR ''='') e)))
       (fields CHR '';'' [] d)"

fun tokens :: "string \<Rightarrow> string \<Rightarrow> string list" where
  \<comment> \<open>split at spaces, skipping empty parts; the first argument is the token being read\<close>
  "tokens cur [] = (if cur = [] then [] else [cur])"
| "tokens cur (ch # rest) =
     (if ch = CHR '' '' then (if cur = [] then tokens [] rest else cur # tokens [] rest)
      else tokens (cur @ [ch]) rest)"

definition test_decomposeDisplayLabel :: "string \<Rightarrow> QContactName \<Rightarrow> QContactName" where
  "test_decomposeDisplayLabel label n =
     (let ts = tokens [] label
      in if 2 \<le> length ts then n\<lparr>firstName := hd ts, lastName := last ts\<rparr> else n)"

definition write_property :: "QVersitProperty \<Rightarrow> string" where
  "write_property p = prop_name p @ '':'' @ prop_value p @ CRLF"

definition test_writeDocuments :: "QVersitDocument list \<Rightarrow> string" where
  "test_writeDocuments ds =
     concat (map (\<lambda>d. ''BEGIN:VCARD'' @ CRLF @ ''VERSION:3.0'' @ CRLF
                        @ concat (map write_property d) @ ''END:VCARD'' @ CRLF) ds)"

definition rekey :: "('k \<rightharpoonup> 'v) \<Rightarrow> 'k \<Rightarrow> 'k \<Rightarrow> ('k \<rightharpoonup> 'v)" where
  "rekey m old new = (case m old of None \<Rightarrow> m | Some v \<Rightarrow> (m(old := None))(new \<mapsto> v))"

definition migrateGuidData_spec :: "string \<Rightarrow> string \<Rightarrow> string \<Rightarrow> Syncer \<Rightarrow> Syncer" where
  \<comment> \<open>Modelled from the spec: \<open>Syncer::migrateGuidData\<close> is not in carddav.cpp. The design
      notes say that a legacy guid is transformed in place to the address-book form and
      that the state entries are rekeyed atomically.\<close>
  "migrateGuidData_spec oldguid newguid addressbookUrl qs =
     qs\<lparr>m_contactUids := rekey (m_contactUids qs) oldguid newguid,
        m_contactUris := rekey (m_contactUris qs) oldguid newguid,
        m_contactEtags := rekey (m_contactEtags qs) oldguid newguid,
        m_contactIds := rekey (m_contactIds qs) oldguid newguid,
        m_contactUnsupportedProperties :=
          rekey (m_contactUnsupportedProperties qs) oldguid newguid,
        m_addressbookContactGuids :=
          (m_addressbookContactGuids qs)(addressbookUrl \<mapsto>
             map (\<lambda>g. if g = oldguid then newguid else g)
               (qmap_value (m_addressbookContactGuids qs) addressbookUrl))\<rparr>"

definition test_env :: Env where
  "test_env =
     \<lparr>request_ok = (\<lambda>r. True),
      QUrl_parse = test_QUrl_parse,
      parseUserPrincipal = (\<lambda>d. (d, UserPrincipalResponse)),
      parseAddressbookInformation = (\<lambda>d h. []),
      parseSyncTokenDelta = (\<lambda>d. ([], d)),
      parseContactMetadata = parseContactMetadata_spec test_decode_listing,
      parseContactData = (\<lambda>d u qs. (qs, [])),
      migrateGuidData = migrateGuidData_spec,
      significantDifferences =
        (\<lambda>a b. name_detail a \<noteq> name_detail b \<or> other_details a \<noteq> other_details b),
      exportDetails =
        (\<lambda>c. [[\<lparr>prop_name = ''UID'', prop_value = contact_guid c, prop_params = []\<rparr>]]),
      writeDocuments = test_writeDocuments,
      generateDisplayLabel = other_details,
      decomposeDisplayLabel = test_decomposeDisplayLabel,
      createUuid = (\<lambda>n. ''{0000-'' @ string_of_nat n @ ''}'')\<rparr>"

definition empty_syncer :: "int \<Rightarrow> Syncer" where
  "empty_syncer a =
     \<lparr>m_accountId = a, m_defaultAddressbook = [],
      m_addressbookCtags = Map.empty, m_addressbookSyncTokens = Map.empty,
      m_addressbookContactGuids = Map.empty,
      m_contactUids = Map.empty, m_contactUris = Map.empty, m_contactEtags = Map.empty,
      m_contactIds = Map.empty, m_contactUnsupportedProperties = Map.empty,
      m_serverAdditions = Map.empty, m_serverModifications = Map.empty,
      m_serverDeletions = Map.empty,
      m_serverAdditionIndices = (\<lambda>u. Map.empty),
      m_serverModificationIndices = (\<lambda>u. Map.empty),
      m_serverAddModsByUid = (\<lambda>u. [])\<rparr>"

definition initial_engine :: "Syncer \<Rightarrow> string \<Rightarrow> CardDav" where
  \<comment> \<open>the constructor: discovery not started, no request pending\<close>
  "initial_engine qs serverUrl =
     \<lparr>q = qs, m_serverUrl = serverUrl, m_discoveryStage = DiscoveryStarted,
      m_downsyncRequests = 0, m_upsyncRequests = 0,
      m_remoteAdditions = [], m_remoteModifications = [], m_remoteRemovals = [],
      uuids_drawn = 0, events = []\<rparr>"

definition jane :: QContact where
  \<comment> \<open>a contact with a display label and no structured name\<close>
  "jane = \<lparr>contact_id = ''42'', guid_details = [''u1''],
            name_detail = \<lparr>firstName = [], lastName = [], name_rest = []\<rparr>,
            other_details = ''Jane Q Public''\<rparr>"

definition test_ab1 :: AddressBookInformation where
  \<comment> \<open>no sync token, the CTag that is cached\<close>
  "test_ab1 = \<lparr>ab_url = ''/ab1'', ab_displayName = ''one'', ab_ctag = ''c1'', ab_syncToken = []\<rparr>"

definition test_ab2 :: AddressBookInformation where
  \<comment> \<open>a sync token, none cached\<close>
  "test_ab2 = \<lparr>ab_url = ''/ab2'', ab_displayName = ''two'', ab_ctag = ''c2'', ab_syncToken = ''st2''\<rparr>"

definition test_ab3 :: AddressBookInformation where
  \<comment> \<open>a sync token other than the cached one\<close>
  "test_ab3 = \<lparr>ab_url = ''/ab3'', ab_displayName = ''three'', ab_ctag = [], ab_syncToken = ''st3''\<rparr>"

definition test_syncer :: Syncer where
  "test_syncer = (empty_syncer 7)
     \<lparr>m_addressbookCtags := [''/ab1'' \<mapsto> ''c1''],
      m_addressbookSyncTokens := [''/ab3'' \<mapsto> ''st0'']\<rparr>"

definition test_engine :: CardDav where
  "test_engine = initial_engine test_syncer ''https://dav.example.org/''"

definition no_url :: QUrl where
  "no_url = \<lparr>url_scheme = [], url_userInfo = [], url_host = [], url_port = - 1,
             url_path = [], url_query = [], url_fragment = []\<rparr>"

definition failed_reply :: "int \<Rightarrow> string \<Rightarrow> QNetworkReply" where
  \<comment> \<open>a reply with an HTTP error status, for a request on the given address book\<close>
  "failed_reply status addressbookUrl =
     \<lparr>reply_error = True, reply_httpStatus = status, reply_redirect = no_url,
      reply_url = no_url, reply_data = [], reply_rawHeaders = [],
      reply_addressbookUrl = addressbookUrl, reply_contactGuid = []\<rparr>"

definition redirect_reply :: "QUrl \<Rightarrow> QUrl \<Rightarrow> QNetworkReply" where
  \<comment> \<open>a reply without error that redirects the request on \<open>orig\<close> to \<open>redir\<close>\<close>
  "redirect_reply orig redir =
     \<lparr>reply_error = False, reply_httpStatus = 301, reply_redirect = redir,
      reply_url = orig, reply_data = [], reply_rawHeaders = [],
      reply_addressbookUrl = [], reply_contactGuid = []\<rparr>"

definition https_url :: "string \<Rightarrow> string \<Rightarrow> QUrl" where
  "https_url h p = \<lparr>url_scheme = ''https'', url_userInfo = [], url_host = h, url_port = - 1,
                    url_path = p, url_query = [], url_fragment = []\<rparr>"

definition answered_reply :: "string \<Rightarrow> string \<Rightarrow> QNetworkReply" where
  \<comment> \<open>a reply without error and without redirection, for a request on the given
      address book, with the given body\<close>
  "answered_reply addressbookUrl body =
     \<lparr>reply_error = False, reply_httpStatus = 207, reply_redirect = no_url,
      reply_url = no_url, reply_data = body, reply_rawHeaders = [],
      reply_addressbookUrl = addressbookUrl, reply_contactGuid = []\<rparr>"

definition listing_syncer :: Syncer where
  \<comment> \<open>address book \<open>/ab\<close> holds \<open>a.vcf\<close> with ETag \<open>e1\<close> and \<open>b.vcf\<close> with ETag \<open>e2\<close>\<close>
  "listing_syncer = (empty_syncer 7)
     \<lparr>m_addressbookContactGuids := [''/ab'' \<mapsto> [''7:AB:/ab:a'', ''7:AB:/ab:b'']],
      m_contactUris := [''7:AB:/ab:a'' \<mapsto> ''/ab/a.vcf'', ''7:AB:/ab:b'' \<mapsto> ''/ab/b.vcf''],
      m_contactEtags := [''7:AB:/ab:a'' \<mapsto> ''e1'', ''7:AB:/ab:b'' \<mapsto> ''e2''],
      m_contactIds := [''7:AB:/ab:a'' \<mapsto> ''1'', ''7:AB:/ab:b'' \<mapsto> ''2'']\<rparr>"

definition discovery_engine :: "string \<Rightarrow> CardDav" where
  \<comment> \<open>an engine at the start of discovery with the given server URL\<close>
  "discovery_engine serverUrl = initial_engine test_syncer serverUrl"

definition test_guid :: string where
  "test_guid = ''7:AB:/ab2:u1''"

definition upsync_syncer :: Syncer where
  \<comment> \<open>one contact with uid \<open>u1\<close> known in address book \<open>/ab2\<close>; the same uid has just been
      downsynced from address book \<open>/ab1\<close>\<close>
  "upsync_syncer = (empty_syncer 7)
     \<lparr>m_addressbookContactGuids := [''/ab2'' \<mapsto> [test_guid]],
      m_contactUids := [test_guid \<mapsto> ''u1''],
      m_contactUris := [test_guid \<mapsto> ''/ab2/u1.vcf''],
      m_contactEtags := [test_guid \<mapsto> ''e1''],
      m_contactIds := [test_guid \<mapsto> ''42''],
      m_contactUnsupportedProperties := [test_guid \<mapsto> [''X-CUSTOM-FIELD:foo'']],
      m_serverAddModsByUid :=
        (\<lambda>uid. if uid = ''u1'' then [(''/ab1'', jane\<lparr>guid_details := [''7:AB:/ab1:u1'']\<rparr>)]
                else [])\<rparr>"

definition upsync_engine :: CardDav where
  "upsync_engine = initial_engine upsync_syncer ''https://dav.example.org/''"

definition local_echo :: QContact where
  \<comment> \<open>the local copy in \<open>/ab2\<close>, with the content that was downsynced\<close>
  "local_echo = jane\<lparr>guid_details := [test_guid]\<rparr>"


definition stranger :: QContact where
  \<comment> \<open>a contact the syncer has no state for\<close>
  "stranger = jane\<lparr>guid_details := [''u9'']\<rparr>"

definition no_locals :: upsync_locals where
  "no_locals = \<lparr>hadNonSpuriousChanges = False, spuriousModifications = 0\<rparr>"

definition jane_card :: QVersitDocument where
  \<comment> \<open>a document with neither FN nor N\<close>
  "jane_card = [\<lparr>prop_name = ''UID'', prop_value = ''u1'', prop_params = []\<rparr>,
                \<lparr>prop_name = ''EMAIL'', prop_value = ''jane@example.org'', prop_params = []\<rparr>]"

definition listing_engine :: CardDav where
  "listing_engine = initial_engine listing_syncer ''https://dav.example.org/''"

section \<open>Properties\<close>

subsection \<open>The last occurrence of a pattern\<close>

lemma lastIndexOf_from_iff:
  "lastIndexOf_from s pat k = int n \<longleftrightarrow>
     n \<le> k \<and> prefix pat (drop n s) \<and> (\<forall>i. n < i \<and> i \<le> k \<longrightarrow> \<not> prefix pat (drop i s))"
proof (induction k)
  case 0
  then show ?case by auto
next
  case (Suc k)
  show ?case
  proof (cases "prefix pat (drop (Suc k) s)")
    case True
    then have "lastIndexOf_from s pat (Suc k) = int (Suc k)"
      by simp
    then have e: "lastIndexOf_from s pat (Suc k) = int n \<longleftrightarrow> n = Suc k"
      by (simp only: of_nat_eq_iff) auto
    show ?thesis
    proof
      assume "lastIndexOf_from s pat (Suc k) = int n"
      with e have "n = Suc k" by simp
      with True show "n \<le> Suc k \<and> prefix pat (drop n s) \<and>
          (\<forall>i. n < i \<and> i \<le> Suc k \<longrightarrow> \<not> prefix pat (drop i s))"
        by auto
    next
      assume a: "n \<le> Suc k \<and> prefix pat (drop n s) \<and>
          (\<forall>i. n < i \<and> i \<le> Suc k \<longrightarrow> \<not> prefix pat (drop i s))"
      have "n = Suc k"
      proof (rule ccontr)
        assume "n \<noteq> Suc k"
        with a have "n < Suc k" by simp
        with a True show False by blast
      qed
      with e show "lastIndexOf_from s pat (Suc k) = int n" by simp
    qed
  next
    case False
    have "lastIndexOf_from s pat (Suc k) = lastIndexOf_from s pat k"
      using False by simp
    moreover have "(n \<le> Suc k \<and> prefix pat (drop n s) \<and>
          (\<forall>i. n < i \<and> i \<le> Suc k \<longrightarrow> \<not> prefix pat (drop i s)))
        \<longleftrightarrow> (n \<le> k \<and> prefix pat (drop n s) \<and>
          (\<forall>i. n < i \<and> i \<le> k \<longrightarrow> \<not> prefix pat (drop i s)))"
      using False by (auto simp: le_Suc_eq)
    ultimately show ?thesis using Suc.IH by simp
  qed
qed

lemma lastIndexOf_iff:
  assumes "pat \<noteq> []"
  shows "lastIndexOf s pat = int n \<longleftrightarrow>
           prefix pat (drop n s) \<and> (\<forall>i>n. \<not> prefix pat (drop i s))"
proof -
  have beyond: "\<not> prefix pat (drop i s)" if "length s \<le> i" for i
    using that assms by simp
  show ?thesis
  proof
    assume "lastIndexOf s pat = int n"
    then have a: "n \<le> length s" "prefix pat (drop n s)"
      "\<forall>i. n < i \<and> i \<le> length s \<longrightarrow> \<not> prefix pat (drop i s)"
      by (simp_all add: lastIndexOf_def lastIndexOf_from_iff)
    have "\<not> prefix pat (drop i s)" if "n < i" for i
      using that a(3) beyond [of i] by (cases "i \<le> length s") auto
    with a(2) show "prefix pat (drop n s) \<and> (\<forall>i>n. \<not> prefix pat (drop i s))" by blast
  next
    assume b: "prefix pat (drop n s) \<and> (\<forall>i>n. \<not> prefix pat (drop i s))"
    then have "n \<le> length s"
      using beyond [of n] by (cases "n \<le> length s") auto
    with b show "lastIndexOf s pat = int n"
      by (simp add: lastIndexOf_def lastIndexOf_from_iff)
  qed
qed

lemma lastIndexOf_insert:
  assumes pat: "pat \<noteq> []" and l: "lastIndexOf s pat = int n"
  shows "lastIndexOf (insert_at s n x) pat = int (n + length x)"
proof -
  from l pat have occ: "prefix pat (drop n s)" and last: "\<forall>i>n. \<not> prefix pat (drop i s)"
    by (simp_all add: lastIndexOf_iff)
  from occ pat have n: "n < length s"
    by (cases "n < length s") auto
  have d: "drop (n + length x + j) (insert_at s n x) = drop (n + j) s" for j
    using n by (simp add: insert_at_def min_def add.commute add.left_commute)
  have "prefix pat (drop (n + length x) (insert_at s n x))"
    using d [of 0] occ by simp
  moreover have "\<not> prefix pat (drop i (insert_at s n x))" if "n + length x < i" for i
  proof -
    from that obtain j where "i = n + length x + j" "0 < j"
      by (metis less_imp_add_positive)
    then show ?thesis using d [of j] last by simp
  qed
  ultimately show ?thesis
    unfolding lastIndexOf_iff [OF pat] by blast
qed

lemma foldl_add_unsupported:
  "lastIndexOf retn ''END:VCARD'' = int n \<Longrightarrow> 0 < n \<Longrightarrow>
   foldl add_unsupported retn props
     = take n retn @ concat (map (\<lambda>p. p @ CRLF) props) @ drop n retn"
proof (induction props arbitrary: retn n)
  case Nil
  then show ?case by simp
next
  case (Cons p ps)
  let ?x = "p @ CRLF"
  have step: "add_unsupported retn p = insert_at retn n ?x"
    using Cons.prems by (simp add: add_unsupported_def)
  have l': "lastIndexOf (insert_at retn n ?x) ''END:VCARD'' = int (n + length ?x)"
    using Cons.prems(1) by (intro lastIndexOf_insert) simp_all
  from Cons.prems have occ: "prefix ''END:VCARD'' (drop n retn)"
    by (simp add: lastIndexOf_iff)
  then have n: "n < length retn"
    by (cases "n < length retn") auto
  have "foldl add_unsupported retn (p # ps) = foldl add_unsupported (insert_at retn n ?x) ps"
    by (simp add: step)
  also have "\<dots> = take (n + length ?x) (insert_at retn n ?x)
                   @ concat (map (\<lambda>p. p @ CRLF) ps) @ drop (n + length ?x) (insert_at retn n ?x)"
    using l' Cons.prems(2) by (intro Cons.IH) simp_all
  also have "\<dots> = take n retn @ concat (map (\<lambda>p. p @ CRLF) (p # ps)) @ drop n retn"
    using n by (simp add: insert_at_def min_def)
  finally show ?case .
qed


subsection \<open>Per-address-book delta: what one loop iteration changes\<close>

lemma q_fetchContactMetadata [simp]: "q (fetchContactMetadata env u s) = q s"
  by (simp add: fetchContactMetadata_def emit_def)

lemma q_fetchImmediateDelta [simp]: "q (fetchImmediateDelta env u t s) = q s"
  by (simp add: fetchImmediateDelta_def emit_def)

lemma q_no_changes [simp]: "q (no_changes s) = q s"
  by (simp add: no_changes_def emit_def)

lemma qmap_value_touch [simp]: "qmap_value (qmap_touch m k) k' = qmap_value m k'"
  by (simp add: qmap_value_def qmap_touch_def split: option.splits)

lemma qmap_value_upd [simp]: "qmap_value (m(k \<mapsto> v)) k' = (if k' = k then v else qmap_value m k')"
  by (simp add: qmap_value_def)

lemma default_downsyncAddressbook:
  "m_defaultAddressbook (q (downsyncAddressbook env info s))
     = (if m_defaultAddressbook (q s) = [] then ab_url info else m_defaultAddressbook (q s))"
  by (simp add: downsyncAddressbook_def Let_def set_ctag_def set_syncToken_def)

lemma step_other:
  "m_serverUrl (downsyncAddressbook env info s) = m_serverUrl s"
  by (simp_all add: downsyncAddressbook_def Let_def set_ctag_def set_syncToken_def
      fetchContactMetadata_def fetchImmediateDelta_def no_changes_def emit_def)

lemma serverUrl_downsyncAddressbookContent:
  "m_serverUrl (downsyncAddressbookContent env infos s) = m_serverUrl s"
  unfolding downsyncAddressbookContent_def
  by (induction infos arbitrary: s) (simp_all add: step_other)

lemma downsyncAddressbookContent_take_Suc:
  "i < length infos \<Longrightarrow>
   downsyncAddressbookContent env (take (Suc i) infos) s
     = downsyncAddressbook env (infos ! i) (downsyncAddressbookContent env (take i infos) s)"
  by (simp add: downsyncAddressbookContent_def take_Suc_conv_app_nth)

lemma step_events_local:
  assumes "request_ok env (ContactEtags (m_serverUrl s) (ab_url info))"
    and "request_ok env (SyncTokenDelta (m_serverUrl s) (ab_url info)
           (qmap_value (m_addressbookSyncTokens (q s)) (ab_url info)))"
  shows "events (downsyncAddressbook env info s)
           = events s @ [strategy_event (m_serverUrl s) (ab_url info) (selected_strategy (q s) info)]
         \<and> m_downsyncRequests (downsyncAddressbook env info s) = m_downsyncRequests s + 1"
  using assms
  by (simp add: downsyncAddressbook_def Let_def set_ctag_def set_syncToken_def
      fetchContactMetadata_def fetchImmediateDelta_def no_changes_def emit_def
      strategy_event_def selected_strategy_def)

lemma downsyncComplete_counter:
  "m_downsyncRequests (downsyncComplete s) = m_downsyncRequests s - 1"
  by (simp add: downsyncComplete_def Let_def emit_def)

lemma contactMetadataResponse_manual:
  "parseContactMetadata env = parseContactMetadata_spec decode \<Longrightarrow> \<not> reply_error reply \<Longrightarrow>
   contactMetadataResponse env reply s
     = fetchContacts env (reply_addressbookUrl reply)
         (manual_delta (q s) (reply_addressbookUrl reply) (decode (reply_data reply))) s"
  by (simp add: contactMetadataResponse_def parseContactMetadata_spec_def Let_def)


subsection \<open>The manual delta, element by element\<close>

lemma manual_delta_iff:
  "ci \<in> set (manual_delta qs u listing) \<longleftrightarrow>
     (\<exists>uri etag. (uri, etag) \<in> set listing \<and> find_guid_by_uri qs u uri = None
        \<and> ci = \<lparr>ci_modType = Addition, ci_uri = uri, ci_guid = [], ci_etag = etag\<rparr>)
   \<or> (\<exists>uri etag g. (uri, etag) \<in> set listing \<and> find_guid_by_uri qs u uri = Some g
        \<and> qmap_value (m_contactEtags qs) g \<noteq> etag
        \<and> ci = \<lparr>ci_modType = Modification, ci_uri = uri, ci_guid = g, ci_etag = etag\<rparr>)
   \<or> (\<exists>g. g \<in> set (qmap_value (m_addressbookContactGuids qs) u)
        \<and> qmap_value (m_contactUris qs) g \<notin> fst ` set listing
        \<and> ci = \<lparr>ci_modType = Deletion, ci_uri = qmap_value (m_contactUris qs) g, ci_guid = g,
                 ci_etag = []\<rparr>)"
  unfolding manual_delta_def
  by (auto split: option.splits if_splits) force+

subsection \<open>Principal discovery: a reply with a redirection target\<close>

lemma userInformationResponse_redirect:
  assumes "\<not> reply_error reply" and "\<not> QUrl_isEmpty (reply_redirect reply)"
    and "orig = reply_url reply" and "redir = reply_redirect reply"
    and "new = (if url_scheme redir = [] then url_scheme orig else url_scheme redir) @ ''://''
               @ (if url_host redir = [] then url_host orig else url_host redir) @ url_path redir"
  shows "(suffix ''.well-known/carddav'' (url_path orig) \<and> url_path orig \<noteq> url_path redir
          \<and> request_ok env (CurrentUserInformation new)
         \<longrightarrow> userInformationResponse env reply s
               = s\<lparr>m_serverUrl := new, m_discoveryStage := DiscoveryRedirected,
                    events := events s @ [Sent (CurrentUserInformation new) [] []]\<rparr>)
       \<and> (url_path orig = url_path redir \<or> \<not> suffix ''.well-known/carddav'' (url_path orig)
         \<longrightarrow> userInformationResponse env reply s = s\<lparr>events := events s @ [Error 301]\<rparr>)"
  using assms
  by (auto simp: userInformationResponse_def fetchUserInformation_def emit_def Let_def
      redirectUrl_def)

subsection \<open>Export: the search for a property name\<close>

lemma found_property_iff: "found_property n d \<longleftrightarrow> n \<in> prop_name ` set d"
  by (auto simp: found_property_def find_None_iff)

subsection \<open>Upsync: what the lookups leave alone\<close>


lemma lookup_removal_events:
  "lookup_removal env ab c s = Some (g, s1) \<Longrightarrow>
     events s1 = events s \<and> m_upsyncRequests s1 = m_upsyncRequests s \<and> m_serverUrl s1 = m_serverUrl s"
  by (auto simp: lookup_removal_def Let_def split: if_splits)


lemma q_upsyncResponse_no_guid:
  "reply_contactGuid reply = [] \<Longrightarrow> q (upsyncResponse reply s) = q s"
  by (simp add: upsyncResponse_def upsyncComplete_def emit_def Let_def)


lemma contactsResponse_step_records:
  assumes "m_serverAdditionIndices qs ab uri \<noteq> None \<or> m_serverModificationIndices qs ab uri \<noteq> None"
    and "contactsResponse_step ab (qs, added, modified) (uri, info) = (qs', added', modified')"
  shows "m_serverAddModsByUid qs' (qmap_value (m_contactUids qs) (contact_guid (fci_contact info)))
           \<noteq> []"
  using assms
  by (auto simp: contactsResponse_step_def Let_def split: option.splits)

subsection \<open>Properties of the specification\<close>

text \<open>
  C1, as stated, fails on the code. A known contact is removed locally; the DELETE is
  created and then answered with the error 412. The entries of the guid are already gone
  when the reply arrives and they stay gone: the state after the failure is not the state
  before the removal. (The entry in \<open>m_contactUnsupportedProperties\<close> is still there.)
\<close>

theorem removal_failure_counterexample:
  "m_contactUris (q upsync_engine) test_guid = Some ''/ab2/u1.vcf''
   \<and> m_contactEtags (q upsync_engine) test_guid = Some ''e1''
   \<and> events (upsyncResponse (failed_reply 412 ''/ab2'')
                (upsyncUpdates test_env ''/ab2'' [] [] [local_echo] upsync_engine))
       = [Sent (UpsyncDeletion ''https://dav.example.org/'' ''/ab2/u1.vcf'' ''e1'') ''/ab2'' [],
          Error 412]
   \<and> m_contactUris (q (upsyncResponse (failed_reply 412 ''/ab2'')
                (upsyncUpdates test_env ''/ab2'' [] [] [local_echo] upsync_engine))) test_guid = None
   \<and> m_contactEtags (q (upsyncResponse (failed_reply 412 ''/ab2'')
                (upsyncUpdates test_env ''/ab2'' [] [] [local_echo] upsync_engine))) test_guid = None
   \<and> m_contactUids (q (upsyncResponse (failed_reply 412 ''/ab2'')
                (upsyncUpdates test_env ''/ab2'' [] [] [local_echo] upsync_engine))) test_guid = None
   \<and> m_contactIds (q (upsyncResponse (failed_reply 412 ''/ab2'')
                (upsyncUpdates test_env ''/ab2'' [] [] [local_echo] upsync_engine))) test_guid = None
   \<and> m_contactUnsupportedProperties (q (upsyncResponse (failed_reply 412 ''/ab2'')
                (upsyncUpdates test_env ''/ab2'' [] [] [local_echo] upsync_engine))) test_guid
       = Some [''X-CUSTOM-FIELD:foo'']"
  by code_simp

text \<open>
  C1, amended. For a local removal whose server URI is known (under the address-book guid,
  or under the legacy guid, whose data is then migrated), and a request generator that
  returns a reply: the body of the removals loop sends a DELETE for the stored URI with
  the stored ETag and, in the same step, before any reply, removes the entries of the guid
  from \<open>m_contactUids\<close>, \<open>m_contactUris\<close>, \<open>m_contactEtags\<close> and \<open>m_contactIds\<close> and one
  occurrence of the guid from the guid list of the address book; the reply to the DELETE
  (no \<open>contactGuid\<close> property), success or failure, leaves the state of the syncer as that
  step left it. A removal whose URI is unknown is skipped: nothing is sent, nothing changes.
\<close>

theorem removal_purges_when_request_is_issued:
  "(lookup_removal env ab c s = Some (guidstr, s1)
    \<and> request_ok env (UpsyncDeletion (m_serverUrl s)
         (qmap_value (m_contactUris (q s1)) guidstr) (qmap_value (m_contactEtags (q s1)) guidstr))
    \<longrightarrow> (\<exists>s'. upsync_removal env ab c (s, l) = Inr (s', l\<lparr>hadNonSpuriousChanges := True\<rparr>)
           \<and> events s' = events s @ [Sent (UpsyncDeletion (m_serverUrl s)
                 (qmap_value (m_contactUris (q s1)) guidstr)
                 (qmap_value (m_contactEtags (q s1)) guidstr)) ab []]
           \<and> m_contactUids (q s') guidstr = None
           \<and> m_contactUris (q s') guidstr = None
           \<and> m_contactEtags (q s') guidstr = None
           \<and> m_contactIds (q s') guidstr = None
           \<and> qmap_value (m_addressbookContactGuids (q s')) ab
               = remove1 guidstr (qmap_value (m_addressbookContactGuids (q s1)) ab)
           \<and> (\<forall>reply. reply_contactGuid reply = [] \<longrightarrow> q (upsyncResponse reply s') = q s')))
   \<and> (lookup_removal env ab c s = None \<longrightarrow> upsync_removal env ab c (s, l) = Inr (s, l))"
proof (intro conjI impI)
  assume a: "lookup_removal env ab c s = Some (guidstr, s1)
    \<and> request_ok env (UpsyncDeletion (m_serverUrl s)
         (qmap_value (m_contactUris (q s1)) guidstr) (qmap_value (m_contactEtags (q s1)) guidstr))"
  note e = lookup_removal_events [OF a [THEN conjunct1]]
  show "\<exists>s'. upsync_removal env ab c (s, l) = Inr (s', l\<lparr>hadNonSpuriousChanges := True\<rparr>)
           \<and> events s' = events s @ [Sent (UpsyncDeletion (m_serverUrl s)
                 (qmap_value (m_contactUris (q s1)) guidstr)
                 (qmap_value (m_contactEtags (q s1)) guidstr)) ab []]
           \<and> m_contactUids (q s') guidstr = None
           \<and> m_contactUris (q s') guidstr = None
           \<and> m_contactEtags (q s') guidstr = None
           \<and> m_contactIds (q s') guidstr = None
           \<and> qmap_value (m_addressbookContactGuids (q s')) ab
               = remove1 guidstr (qmap_value (m_addressbookContactGuids (q s1)) ab)
           \<and> (\<forall>reply. reply_contactGuid reply = [] \<longrightarrow> q (upsyncResponse reply s') = q s')"
    using a e
    by (simp add: upsync_removal_def Let_def emit_def clear_contact_state_def qmap_remove_def
        q_upsyncResponse_no_guid)
next
  assume "lookup_removal env ab c s = None"
  then show "upsync_removal env ab c (s, l) = Inr (s, l)"
    by (simp add: upsync_removal_def)
qed


theorem removal_purges_when_request_is_issued_witness:
  "lookup_removal test_env ''/ab2'' local_echo upsync_engine = Some (test_guid, upsync_engine)
   \<and> request_ok test_env (UpsyncDeletion (m_serverUrl upsync_engine)
        (qmap_value (m_contactUris (q upsync_engine)) test_guid)
        (qmap_value (m_contactEtags (q upsync_engine)) test_guid))
   \<and> (\<exists>s'. upsync_removal test_env ''/ab2'' local_echo (upsync_engine, no_locals)
               = Inr (s', no_locals\<lparr>hadNonSpuriousChanges := True\<rparr>)
          \<and> events s'
              = [Sent (UpsyncDeletion ''https://dav.example.org/'' ''/ab2/u1.vcf'' ''e1'') ''/ab2'' []]
          \<and> m_contactUris (q s') test_guid = None
          \<and> m_contactEtags (q s') test_guid = None
          \<and> qmap_value (m_addressbookContactGuids (q s')) ''/ab2'' = []
          \<and> q (upsyncResponse (failed_reply 412 ''/ab2'') s') = q s')
   \<and> lookup_removal test_env ''/ab2'' stranger upsync_engine = None
   \<and> upsync_removal test_env ''/ab2'' stranger (upsync_engine, no_locals)
       = Inr (upsync_engine, no_locals)"
proof -
  have n: "QString_number 7 = ''7''"
    by code_simp
  have t: "transformIntoAddressbookSpecificGuid test_guid 7 ''/ab2'' = test_guid"
    by (simp add: transformIntoAddressbookSpecificGuid_def guid_prefix_def n test_guid_def)
  have tj: "transformIntoAddressbookSpecificGuid ''u9'' 7 ''/ab2'' = ''7:AB:/ab2:u9''"
    by (simp add: transformIntoAddressbookSpecificGuid_def guid_prefix_def n)
  have acct: "m_accountId (q upsync_engine) = 7"
    by (simp add: upsync_engine_def initial_engine_def upsync_syncer_def empty_syncer_def)
  have uri: "qmap_value (m_contactUris (q upsync_engine)) test_guid = ''/ab2/u1.vcf''"
    and etag: "qmap_value (m_contactEtags (q upsync_engine)) test_guid = ''e1''"
    and guids: "qmap_value (m_addressbookContactGuids (q upsync_engine)) ''/ab2'' = [test_guid]"
    and url: "m_serverUrl upsync_engine = ''https://dav.example.org/''"
    and ev: "events upsync_engine = []"
    by (simp_all add: upsync_engine_def initial_engine_def upsync_syncer_def empty_syncer_def)
  have a: "lookup_removal test_env ''/ab2'' local_echo upsync_engine
             = Some (test_guid, upsync_engine)"
    by (simp add: lookup_removal_def local_echo_def contact_guid_def acct t uri)
  have b: "request_ok test_env r" for r
    by (simp add: test_env_def)
  have unknown: "qmap_value (m_contactUris (q upsync_engine)) ''7:AB:/ab2:u9'' = []"
    "qmap_value (m_contactUris (q upsync_engine)) ''u9'' = []"
    by (simp_all add: upsync_engine_def initial_engine_def upsync_syncer_def empty_syncer_def
        test_guid_def qmap_value_def)
  have c: "lookup_removal test_env ''/ab2'' stranger upsync_engine = None"
    by (simp add: lookup_removal_def stranger_def contact_guid_def acct tj unknown Let_def)
  have fr: "reply_contactGuid (failed_reply 412 ''/ab2'') = []"
    by (simp add: failed_reply_def)
  note th = removal_purges_when_request_is_issued
              [of test_env "''/ab2''" _ upsync_engine _ _ no_locals]
  from th [of local_echo test_guid upsync_engine, THEN conjunct1] a b
  obtain s' where s':
    "upsync_removal test_env ''/ab2'' local_echo (upsync_engine, no_locals)
       = Inr (s', no_locals\<lparr>hadNonSpuriousChanges := True\<rparr>)"
    "events s' = events upsync_engine @ [Sent (UpsyncDeletion (m_serverUrl upsync_engine)
         (qmap_value (m_contactUris (q upsync_engine)) test_guid)
         (qmap_value (m_contactEtags (q upsync_engine)) test_guid)) ''/ab2'' []]"
    "m_contactUris (q s') test_guid = None"
    "m_contactEtags (q s') test_guid = None"
    "qmap_value (m_addressbookContactGuids (q s')) ''/ab2''
       = remove1 test_guid (qmap_value (m_addressbookContactGuids (q upsync_engine)) ''/ab2'')"
    "\<forall>reply. reply_contactGuid reply = [] \<longrightarrow> q (upsyncResponse reply s') = q s'"
    by blast
  have ex: "\<exists>s'. upsync_removal test_env ''/ab2'' local_echo (upsync_engine, no_locals)
               = Inr (s', no_locals\<lparr>hadNonSpuriousChanges := True\<rparr>)
          \<and> events s'
              = [Sent (UpsyncDeletion ''https://dav.example.org/'' ''/ab2/u1.vcf'' ''e1'') ''/ab2'' []]
          \<and> m_contactUris (q s') test_guid = None
          \<and> m_contactEtags (q s') test_guid = None
          \<and> qmap_value (m_addressbookContactGuids (q s')) ''/ab2'' = []
          \<and> q (upsyncResponse (failed_reply 412 ''/ab2'') s') = q s'"
    using s' fr by (intro exI [of _ s']) (simp add: uri etag guids url ev)
  from th [of stranger test_guid upsync_engine, THEN conjunct2] c
  have skip: "upsync_removal test_env ''/ab2'' stranger (upsync_engine, no_locals)
                = Inr (upsync_engine, no_locals)"
    by simp
  from a b ex c skip show ?thesis by blast
qed




text \<open>
  C3, as stated, fails on the code. For an address book that reports a sync token while
  none is cached (a first sync), the claim selects a sync-collection REPORT with the
  cached, that is empty, token; the engine sends the full ETag listing.
\<close>

theorem first_sync_token_counterexample:
  "claimed_strategy (q test_engine) test_ab2 = SyncCollection []
   \<and> events (downsyncAddressbookContent test_env [test_ab2] test_engine)
       = [Sent (ContactEtags ''https://dav.example.org/'' ''/ab2'') ''/ab2'' []]
   \<and> events (downsyncAddressbookContent test_env [test_ab2] test_engine)
       \<noteq> events test_engine
           @ [strategy_event (m_serverUrl test_engine) (ab_url test_ab2)
                (claimed_strategy (q test_engine) test_ab2)]"
  by code_simp

text \<open>
  C3, amended. For every address book of the enumerated list, at the moment the loop
  reaches it (\<open>si\<close> is the state after the address books before it; what is cached is
  read from that state), and when the request generator returns a reply for the ETag
  listing and for the sync-collection REPORT of this address book: a sync token with no
  cached token gives the full ETag listing; a sync token that differs from a cached token
  gives the sync-collection REPORT with the cached token; a sync token equal to the
  cached one gives no request, only the timer whose slot decrements the pending count;
  without a sync token, a CTag equal to the cached one gives no request; otherwise the
  full ETag listing is requested. The pending count grows by one for the address book.
  The reply to the ETag listing is handed to the reply parser together with the state,
  and the contacts to fetch are what the parser returns: with the parser of the
  specification, the manual delta, whose elements are the additions (a listed URI that
  no guid of the address book has), the modifications (a listed URI of a guid whose
  stored ETag differs) and the deletions (the URI of a guid that the listing lacks).
\<close>

theorem delta_strategy_selection:
  assumes "i < length infos"
    and "si = downsyncAddressbookContent env (take i infos) s"
    and "request_ok env (ContactEtags (m_serverUrl s) (ab_url (infos ! i)))"
    and "request_ok env (SyncTokenDelta (m_serverUrl s) (ab_url (infos ! i))
           (qmap_value (m_addressbookSyncTokens (q si)) (ab_url (infos ! i))))"
  shows "downsyncAddressbookContent env (take (Suc i) infos) s
           = downsyncAddressbook env (infos ! i) si
       \<and> events (downsyncAddressbook env (infos ! i) si)
           = events si @ [strategy_event (m_serverUrl s) (ab_url (infos ! i))
                            (selected_strategy (q si) (infos ! i))]
       \<and> m_downsyncRequests (downsyncAddressbook env (infos ! i) si) = m_downsyncRequests si + 1
       \<and> m_downsyncRequests (downsyncComplete s') = m_downsyncRequests s' - 1
       \<and> (parseContactMetadata env = parseContactMetadata_spec decode \<and> \<not> reply_error reply
          \<longrightarrow> contactMetadataResponse env reply s'
                = fetchContacts env (reply_addressbookUrl reply)
                    (manual_delta (q s') (reply_addressbookUrl reply) (decode (reply_data reply)))
                    s')
       \<and> (ci \<in> set (manual_delta qs u listing) \<longleftrightarrow>
            (\<exists>uri etag. (uri, etag) \<in> set listing \<and> find_guid_by_uri qs u uri = None
               \<and> ci = \<lparr>ci_modType = Addition, ci_uri = uri, ci_guid = [], ci_etag = etag\<rparr>)
          \<or> (\<exists>uri etag g. (uri, etag) \<in> set listing \<and> find_guid_by_uri qs u uri = Some g
               \<and> qmap_value (m_contactEtags qs) g \<noteq> etag
               \<and> ci = \<lparr>ci_modType = Modification, ci_uri = uri, ci_guid = g, ci_etag = etag\<rparr>)
          \<or> (\<exists>g. g \<in> set (qmap_value (m_addressbookContactGuids qs) u)
               \<and> qmap_value (m_contactUris qs) g \<notin> fst ` set listing
               \<and> ci = \<lparr>ci_modType = Deletion, ci_uri = qmap_value (m_contactUris qs) g,
                        ci_guid = g, ci_etag = []\<rparr>))"
proof -
  have url: "m_serverUrl si = m_serverUrl s"
    by (simp add: assms(2) serverUrl_downsyncAddressbookContent)
  have a: "downsyncAddressbookContent env (take (Suc i) infos) s
             = downsyncAddressbook env (infos ! i) si"
    using assms(1) by (simp add: assms(2) downsyncAddressbookContent_take_Suc)
  have b: "events (downsyncAddressbook env (infos ! i) si)
             = events si @ [strategy_event (m_serverUrl s) (ab_url (infos ! i))
                              (selected_strategy (q si) (infos ! i))]
           \<and> m_downsyncRequests (downsyncAddressbook env (infos ! i) si)
             = m_downsyncRequests si + 1"
    using step_events_local [of env si "infos ! i"] assms(3,4) by (simp add: url)
  have c: "parseContactMetadata env = parseContactMetadata_spec decode \<and> \<not> reply_error reply
          \<longrightarrow> contactMetadataResponse env reply s'
                = fetchContacts env (reply_addressbookUrl reply)
                    (manual_delta (q s') (reply_addressbookUrl reply) (decode (reply_data reply)))
                    s'"
    using contactMetadataResponse_manual [of env decode reply s'] by blast
  from a b c downsyncComplete_counter [of s'] manual_delta_iff [of ci qs u listing]
  show ?thesis by blast
qed

theorem delta_strategy_selection_witness:
  "(2::nat) < length [test_ab1, test_ab2, test_ab3]
   \<and> request_ok test_env (ContactEtags (m_serverUrl test_engine)
        (ab_url ([test_ab1, test_ab2, test_ab3] ! 2)))
   \<and> request_ok test_env (SyncTokenDelta (m_serverUrl test_engine)
        (ab_url ([test_ab1, test_ab2, test_ab3] ! 2))
        (qmap_value (m_addressbookSyncTokens
           (q (downsyncAddressbookContent test_env (take 2 [test_ab1, test_ab2, test_ab3])
                 test_engine)))
           (ab_url ([test_ab1, test_ab2, test_ab3] ! 2))))
   \<and> events (downsyncAddressbookContent test_env (take (Suc 2) [test_ab1, test_ab2, test_ab3])
               test_engine)
       = [SingleShot DownsyncCompleteSlot,
          Sent (ContactEtags ''https://dav.example.org/'' ''/ab2'') ''/ab2'' [],
          Sent (SyncTokenDelta ''https://dav.example.org/'' ''/ab3'' ''st0'') ''/ab3'' []]
   \<and> parseContactMetadata test_env = parseContactMetadata_spec test_decode_listing
   \<and> \<not> reply_error (answered_reply ''/ab'' ''/ab/a.vcf=e1;/ab/c.vcf=e3;'')
   \<and> events (contactMetadataResponse test_env
                (answered_reply ''/ab'' ''/ab/a.vcf=e1;/ab/c.vcf=e3;'') listing_engine)
       = [Sent (ContactMultiget ''https://dav.example.org/'' ''/ab'' [''/ab/c.vcf'']) ''/ab'' []]
   \<and> manual_delta listing_syncer ''/ab'' [(''/ab/a.vcf'', ''e1''), (''/ab/c.vcf'', ''e3'')]
       = [\<lparr>ci_modType = Addition, ci_uri = ''/ab/c.vcf'', ci_guid = [], ci_etag = ''e3''\<rparr>,
          \<lparr>ci_modType = Deletion, ci_uri = ''/ab/b.vcf'', ci_guid = ''7:AB:/ab:b'',
            ci_etag = []\<rparr>]"
proof -
  let ?infos = "[test_ab1, test_ab2, test_ab3]"
  let ?si = "downsyncAddressbookContent test_env (take 2 ?infos) test_engine"
  let ?r = "answered_reply ''/ab'' ''/ab/a.vcf=e1;/ab/c.vcf=e3;''"
  have l: "(2::nat) < length ?infos"
    by simp
  have ok: "request_ok test_env r" for r
    by (simp add: test_env_def)
  have pm: "parseContactMetadata test_env = parseContactMetadata_spec test_decode_listing"
    by (simp add: test_env_def)
  have ne: "\<not> reply_error ?r"
    by (simp add: answered_reply_def)
  note th = delta_strategy_selection [OF l refl ok ok, where s' = listing_engine
      and reply = ?r and decode = test_decode_listing]
  note a = th [THEN conjunct1]
  note b = th [THEN conjunct2, THEN conjunct1]
  note c = th [THEN conjunct2, THEN conjunct2, THEN conjunct2, THEN conjunct2, THEN conjunct1,
      THEN mp, OF conjI [OF pm ne]]
  have rhs: "events ?si @ [strategy_event (m_serverUrl test_engine) (ab_url (?infos ! 2))
                             (selected_strategy (q ?si) (?infos ! 2))]
             = [SingleShot DownsyncCompleteSlot,
                Sent (ContactEtags ''https://dav.example.org/'' ''/ab2'') ''/ab2'' [],
                Sent (SyncTokenDelta ''https://dav.example.org/'' ''/ab3'' ''st0'') ''/ab3'' []]"
    by code_simp
  have ev: "events (downsyncAddressbookContent test_env (take (Suc 2) ?infos) test_engine)
              = [SingleShot DownsyncCompleteSlot,
                 Sent (ContactEtags ''https://dav.example.org/'' ''/ab2'') ''/ab2'' [],
                 Sent (SyncTokenDelta ''https://dav.example.org/'' ''/ab3'' ''st0'') ''/ab3'' []]"
    by (rule trans [OF arg_cong [where f = events, OF a] trans [OF b rhs]])
  have rhs2: "events (fetchContacts test_env (reply_addressbookUrl ?r)
                 (manual_delta (q listing_engine) (reply_addressbookUrl ?r)
                    (test_decode_listing (reply_data ?r))) listing_engine)
              = [Sent (ContactMultiget ''https://dav.example.org/'' ''/ab'' [''/ab/c.vcf''])
                   ''/ab'' []]"
    by code_simp
  have ev2: "events (contactMetadataResponse test_env ?r listing_engine)
               = [Sent (ContactMultiget ''https://dav.example.org/'' ''/ab'' [''/ab/c.vcf''])
                    ''/ab'' []]"
    by (rule trans [OF arg_cong [where f = events, OF c] rhs2])
  have md: "manual_delta listing_syncer ''/ab'' [(''/ab/a.vcf'', ''e1''), (''/ab/c.vcf'', ''e3'')]
       = [\<lparr>ci_modType = Addition, ci_uri = ''/ab/c.vcf'', ci_guid = [], ci_etag = ''e3''\<rparr>,
          \<lparr>ci_modType = Deletion, ci_uri = ''/ab/b.vcf'', ci_guid = ''7:AB:/ab:b'',
            ci_etag = []\<rparr>]"
    by code_simp
  from l ok ev pm ne ev2 md show ?thesis by blast
qed

text \<open>
  C4, as stated, fails on the code. With a first address book whose CTag is the cached one
  (no delta request) and a second one that needs a full listing, the first address book
  with delta activity is the second, yet the default address book becomes the first.
\<close>

theorem default_addressbook_counterexample:
  "first_with_delta_activity (q test_engine) [test_ab1, test_ab2] = Some ''/ab2''
   \<and> m_defaultAddressbook (q test_engine) = []
   \<and> m_defaultAddressbook (q (downsyncAddressbookContent test_env [test_ab1, test_ab2]
                                 test_engine)) = ''/ab1''"
  by code_simp

text \<open>
  C4, amended. After the enumeration, a default address book that was already set is
  kept; when none was set, the default address book is the first address book in
  enumeration order (the first whose URL is not empty), whether or not a delta request is
  made for it.
\<close>

theorem default_addressbook_is_first:
  "m_defaultAddressbook (q (downsyncAddressbookContent env infos s))
     = (if m_defaultAddressbook (q s) \<noteq> [] then m_defaultAddressbook (q s)
        else first_addressbook infos)"
proof (induction infos arbitrary: s)
  case Nil
  then show ?case by (simp add: downsyncAddressbookContent_def first_addressbook_def)
next
  case (Cons info infos)
  have "downsyncAddressbookContent env (info # infos) s
          = downsyncAddressbookContent env infos (downsyncAddressbook env info s)"
    by (simp add: downsyncAddressbookContent_def)
  then show ?case
    by (simp add: Cons.IH default_downsyncAddressbook first_addressbook_def)
qed

theorem default_addressbook_is_first_witness:
  "m_defaultAddressbook (q test_engine) = []
   \<and> first_addressbook [test_ab1, test_ab2] = ''/ab1''
   \<and> m_defaultAddressbook (q (downsyncAddressbookContent test_env [test_ab1, test_ab2]
                                 test_engine)) = ''/ab1''"
proof -
  have a: "m_defaultAddressbook (q test_engine) = []"
    by (simp add: test_engine_def initial_engine_def test_syncer_def empty_syncer_def)
  have b: "first_addressbook [test_ab1, test_ab2] = ''/ab1''"
    by (simp add: first_addressbook_def test_ab1_def)
  from default_addressbook_is_first [of test_env "[test_ab1, test_ab2]" test_engine] a b
  show ?thesis by simp
qed

text \<open>
  C5. The principal request on \<open>https://example.org/.well-known/carddav\<close> is answered,
  without error, by a redirection to \<open>https://dav.example.org:8443/principals/me/\<close>. The
  path of the request ends in \<open>.well-known/carddav\<close> and the paths differ, so the target
  is to become the server URL. The engine builds the new server URL from the scheme, the
  host and the path of the target only: the server URL becomes
  \<open>https://dav.example.org/principals/me/\<close>, without the port, and the next principal
  request goes there.
\<close>

theorem redirect_drops_port:
  "QUrl_toString ((https_url ''dav.example.org'' ''/principals/me/'')\<lparr>url_port := 8443\<rparr>)
     = ''https://dav.example.org:8443/principals/me/''
   \<and> m_serverUrl (userInformationResponse test_env
        (redirect_reply (https_url ''example.org'' ''/.well-known/carddav'')
           ((https_url ''dav.example.org'' ''/principals/me/'')\<lparr>url_port := 8443\<rparr>))
        (discovery_engine ''https://example.org/.well-known/carddav''))
       = ''https://dav.example.org/principals/me/''
   \<and> events (userInformationResponse test_env
        (redirect_reply (https_url ''example.org'' ''/.well-known/carddav'')
           ((https_url ''dav.example.org'' ''/principals/me/'')\<lparr>url_port := 8443\<rparr>))
        (discovery_engine ''https://example.org/.well-known/carddav''))
       = [Sent (CurrentUserInformation ''https://dav.example.org/principals/me/'') [] []]"
proof -
  have digits: "char_of (51::nat) = CHR ''3''" "char_of (52::nat) = CHR ''4''"
    "char_of (56::nat) = CHR ''8''"
    by code_simp+
  have n: "QString_number 8443 = ''8443''"
    by (simp add: QString_number_def string_of_nat.simps digits)
  have target: "QUrl_toString ((https_url ''dav.example.org'' ''/principals/me/'')\<lparr>url_port := 8443\<rparr>)
     = ''https://dav.example.org:8443/principals/me/''"
    by (simp add: QUrl_toString_def https_url_def n)
  have adopted: "m_serverUrl (userInformationResponse test_env
        (redirect_reply (https_url ''example.org'' ''/.well-known/carddav'')
           ((https_url ''dav.example.org'' ''/principals/me/'')\<lparr>url_port := 8443\<rparr>))
        (discovery_engine ''https://example.org/.well-known/carddav''))
       = ''https://dav.example.org/principals/me/''"
    by code_simp
  have sent: "events (userInformationResponse test_env
        (redirect_reply (https_url ''example.org'' ''/.well-known/carddav'')
           ((https_url ''dav.example.org'' ''/principals/me/'')\<lparr>url_port := 8443\<rparr>))
        (discovery_engine ''https://example.org/.well-known/carddav''))
       = [Sent (CurrentUserInformation ''https://dav.example.org/principals/me/'') [] []]"
    by code_simp
  from target adopted sent show ?thesis by blast
qed

theorem redirect_drops_port_witness:
  "m_serverUrl (userInformationResponse test_env
        (redirect_reply (https_url ''example.org'' ''/.well-known/carddav'')
           ((https_url ''dav.example.org'' ''/principals/me/'')\<lparr>url_port := 8443\<rparr>))
        (discovery_engine ''https://example.org/.well-known/carddav''))
     \<noteq> QUrl_toString ((https_url ''dav.example.org'' ''/principals/me/'')\<lparr>url_port := 8443\<rparr>)"
  using redirect_drops_port by simp

text \<open>
  C6. With \<open>u\<close> the parsed server URL: (1) at the start of discovery, a server URL whose
  path is empty or \<open>/\<close> makes the principal request go to the URL made of the scheme and
  the host of \<open>u\<close> and the path \<open>/.well-known/carddav\<close>; (2) at the start of discovery,
  an error reply with status 404 or 405 to a request whose path does not end in
  \<open>.well-known/carddav\<close> makes the request go again, to that well-known URL, the stage
  staying at the start; (3) the same error on a path that ends in \<open>.well-known/carddav\<close>
  moves the stage to \<open>DiscoveryTryRoot\<close> and sends the request to the scheme and the host
  of \<open>u\<close> with the path \<open>/\<close>; (4) in the stage \<open>DiscoveryTryRoot\<close> an error reply only
  emits the error with its status, and no request is sent. Each request is sent given that
  the request generator returns a reply for it, and in (2) given that Qt parses the path of
  the well-known URL back as \<open>/.well-known/carddav\<close>.
\<close>

theorem wellknown_bootstrap:
  assumes u: "u = QUrl_parse env (m_serverUrl s)"
  shows "(m_discoveryStage s = DiscoveryStarted \<and> (url_path u = [] \<or> url_path u = ''/'')
          \<and> request_ok env (CurrentUserInformation
                (url_scheme u @ ''://'' @ url_host u @ ''/.well-known/carddav''))
         \<longrightarrow> fetchUserInformation env s
               = s\<lparr>m_serverUrl := url_scheme u @ ''://'' @ url_host u @ ''/.well-known/carddav'',
                    events := events s @ [Sent (CurrentUserInformation
                      (url_scheme u @ ''://'' @ url_host u @ ''/.well-known/carddav'')) [] []]\<rparr>)
       \<and> (m_discoveryStage s = DiscoveryStarted \<and> reply_error reply
          \<and> (reply_httpStatus reply = 404 \<or> reply_httpStatus reply = 405)
          \<and> \<not> suffix ''.well-known/carddav'' (url_path u)
          \<and> url_path (QUrl_parse env
                (url_scheme u @ ''://'' @ url_host u @ ''/.well-known/carddav''))
              = ''/.well-known/carddav''
          \<and> request_ok env (CurrentUserInformation
                (url_scheme u @ ''://'' @ url_host u @ ''/.well-known/carddav''))
         \<longrightarrow> userInformationResponse env reply s
               = s\<lparr>m_serverUrl := url_scheme u @ ''://'' @ url_host u @ ''/.well-known/carddav'',
                    events := events s @ [Sent (CurrentUserInformation
                      (url_scheme u @ ''://'' @ url_host u @ ''/.well-known/carddav'')) [] []]\<rparr>)
       \<and> (m_discoveryStage s = DiscoveryStarted \<and> reply_error reply
          \<and> (reply_httpStatus reply = 404 \<or> reply_httpStatus reply = 405)
          \<and> suffix ''.well-known/carddav'' (url_path u)
          \<and> request_ok env (CurrentUserInformation (url_scheme u @ ''://'' @ url_host u @ ''/''))
         \<longrightarrow> userInformationResponse env reply s
               = s\<lparr>m_discoveryStage := DiscoveryTryRoot,
                    m_serverUrl := url_scheme u @ ''://'' @ url_host u @ ''/'',
                    events := events s @ [Sent (CurrentUserInformation
                      (url_scheme u @ ''://'' @ url_host u @ ''/'')) [] []]\<rparr>)
       \<and> (m_discoveryStage s = DiscoveryTryRoot \<and> reply_error reply
         \<longrightarrow> userInformationResponse env reply s
               = s\<lparr>events := events s @ [Error (reply_httpStatus reply)]\<rparr>)"
  unfolding u
  by (auto simp: userInformationResponse_def fetchUserInformation_def emit_def Let_def
      wellKnownUrl_def rootUrl_def)


theorem wellknown_bootstrap_witness:
  "events (fetchUserInformation test_env (discovery_engine ''https://example.org''))
     = [Sent (CurrentUserInformation ''https://example.org/.well-known/carddav'') [] []]
   \<and> m_serverUrl (userInformationResponse test_env (failed_reply 404 [])
                     (discovery_engine ''https://example.org/dav''))
       = ''https://example.org/.well-known/carddav''
   \<and> events (userInformationResponse test_env (failed_reply 404 [])
                (discovery_engine ''https://example.org/dav''))
       = [Sent (CurrentUserInformation ''https://example.org/.well-known/carddav'') [] []]
   \<and> events (userInformationResponse test_env (failed_reply 405 [])
                (discovery_engine ''https://example.org/.well-known/carddav''))
       = [Sent (CurrentUserInformation ''https://example.org/'') [] []]
   \<and> m_discoveryStage (userInformationResponse test_env (failed_reply 405 [])
                (discovery_engine ''https://example.org/.well-known/carddav''))
       = DiscoveryTryRoot
   \<and> events (userInformationResponse test_env (failed_reply 404 [])
                (userInformationResponse test_env (failed_reply 405 [])
                   (discovery_engine ''https://example.org/.well-known/carddav'')))
       = [Sent (CurrentUserInformation ''https://example.org/'') [] [], Error 404]"
proof -
  let ?s0 = "discovery_engine ''https://example.org''"
  let ?sA = "discovery_engine ''https://example.org/dav''"
  let ?sB = "discovery_engine ''https://example.org/.well-known/carddav''"
  let ?sC = "userInformationResponse test_env (failed_reply 405 []) ?sB"
  have p0: "QUrl_parse test_env (m_serverUrl ?s0) = https_url ''example.org'' []"
    by code_simp
  have pA: "QUrl_parse test_env (m_serverUrl ?sA) = https_url ''example.org'' ''/dav''"
    by code_simp
  have pB: "QUrl_parse test_env (m_serverUrl ?sB)
              = https_url ''example.org'' ''/.well-known/carddav''"
    by code_simp
  have pW: "url_path (QUrl_parse test_env ''https://example.org/.well-known/carddav'')
              = ''/.well-known/carddav''"
    by code_simp
  have st: "m_discoveryStage (discovery_engine x) = DiscoveryStarted"
    and ev: "events (discovery_engine x) = []" for x
    by (simp_all add: discovery_engine_def initial_engine_def)
  have ok: "request_ok test_env r" for r
    by (simp add: test_env_def)
  have fr: "reply_error (failed_reply n a)" "reply_httpStatus (failed_reply n a) = n" for n a
    by (simp_all add: failed_reply_def)
  have sf: "suffix ''.well-known/carddav'' ''/.well-known/carddav''"
    by (simp add: suffix_def)
  have nsf: "\<not> suffix ''.well-known/carddav'' ''/dav''"
    by (simp add: suffix_to_prefix)
  have hp: "url_path (https_url h p) = p" "url_scheme (https_url h p) = ''https''"
    "url_host (https_url h p) = h" for h p
    by (simp_all add: https_url_def)
  have one: "fetchUserInformation test_env ?s0
      = ?s0\<lparr>m_serverUrl := ''https://example.org/.well-known/carddav'',
             events := [Sent (CurrentUserInformation ''https://example.org/.well-known/carddav'')
                          [] []]\<rparr>"
    using wellknown_bootstrap [where reply = "failed_reply 404 []", OF p0 [symmetric],
        THEN conjunct1]
    by (simp add: st ev ok hp)
  have two: "userInformationResponse test_env (failed_reply 404 []) ?sA
      = ?sA\<lparr>m_serverUrl := ''https://example.org/.well-known/carddav'',
             events := [Sent (CurrentUserInformation ''https://example.org/.well-known/carddav'')
                          [] []]\<rparr>"
    using wellknown_bootstrap [where reply = "failed_reply 404 []", OF pA [symmetric],
        THEN conjunct2, THEN conjunct1] nsf
    by (simp add: st ev ok fr hp pW)
  have three: "?sC
      = ?sB\<lparr>m_discoveryStage := DiscoveryTryRoot, m_serverUrl := ''https://example.org/'',
             events := [Sent (CurrentUserInformation ''https://example.org/'') [] []]\<rparr>"
    using wellknown_bootstrap [where reply = "failed_reply 405 []", OF pB [symmetric],
        THEN conjunct2, THEN conjunct2, THEN conjunct1] sf
    by (simp add: st ev ok fr hp)
  have four: "userInformationResponse test_env (failed_reply 404 []) ?sC
      = ?sC\<lparr>events := events ?sC @ [Error 404]\<rparr>"
    using wellknown_bootstrap [where s = ?sC and env = test_env and reply = "failed_reply 404 []",
        OF refl, THEN conjunct2, THEN conjunct2, THEN conjunct2]
    by (simp add: three fr)
  show ?thesis
    by (simp add: one two four) (simp add: three)
qed

text \<open>
  C7. An address book has the cached sync token \<open>st0\<close> and reports \<open>st3\<close>: the
  sync-collection REPORT is sent and counted. Its reply carries the error 403: no error is
  emitted and the ETag listing is sent, counted a second time. The listing is answered
  with no change, and the timer runs \<open>downsyncComplete\<close>, the only decrement for this
  address book: the pending count is 1, not 0, and \<open>remoteChanges\<close> is never emitted. The
  same run with a sync-collection reply without error reaches 0 and emits it.
\<close>

theorem sync_token_fallback_stalls:
  "events (downsyncComplete
     (contactMetadataResponse test_env (answered_reply ''/ab3'' [])
        (immediateDeltaResponse test_env (failed_reply 403 ''/ab3'')
           (downsyncAddressbookContent test_env [test_ab3] test_engine))))
     = [Sent (SyncTokenDelta ''https://dav.example.org/'' ''/ab3'' ''st0'') ''/ab3'' [],
        Sent (ContactEtags ''https://dav.example.org/'' ''/ab3'') ''/ab3'' [],
        SingleShot DownsyncCompleteSlot]
   \<and> m_downsyncRequests (downsyncComplete
        (contactMetadataResponse test_env (answered_reply ''/ab3'' [])
           (immediateDeltaResponse test_env (failed_reply 403 ''/ab3'')
              (downsyncAddressbookContent test_env [test_ab3] test_engine)))) = 1
   \<and> events (downsyncComplete
        (immediateDeltaResponse test_env (answered_reply ''/ab3'' ''st3'')
           (downsyncAddressbookContent test_env [test_ab3] test_engine)))
     = [Sent (SyncTokenDelta ''https://dav.example.org/'' ''/ab3'' ''st0'') ''/ab3'' [],
        SingleShot DownsyncCompleteSlot, RemoteChanges [] [] []]"
  by code_simp


theorem sync_token_fallback_stalls_witness:
  "m_downsyncRequests (downsyncComplete
        (contactMetadataResponse test_env (answered_reply ''/ab3'' [])
           (immediateDeltaResponse test_env (failed_reply 403 ''/ab3'')
              (downsyncAddressbookContent test_env [test_ab3] test_engine)))) \<noteq> 0
   \<and> RemoteChanges [] [] [] \<notin> set (events (downsyncComplete
        (contactMetadataResponse test_env (answered_reply ''/ab3'' [])
           (immediateDeltaResponse test_env (failed_reply 403 ''/ab3'')
              (downsyncAddressbookContent test_env [test_ab3] test_engine)))))
   \<and> RemoteChanges [] [] [] \<in> set (events (downsyncComplete
        (immediateDeltaResponse test_env (answered_reply ''/ab3'' ''st3'')
           (downsyncAddressbookContent test_env [test_ab3] test_engine))))"
  using sync_token_fallback_stalls by simp

text \<open>
  C8. Exporting a contact with a list of unsupported-property lines: when the serialised
  vCard has its last \<open>END:VCARD\<close> at a position \<open>n > 0\<close>, the output is the serialised text
  up to \<open>n\<close>, then every unsupported line followed by CR LF, in the order of the input
  list, then the serialised text from \<open>n\<close> on, which starts with \<open>END:VCARD\<close>; and the
  last \<open>END:VCARD\<close> of the output is the one right after the inserted lines.
\<close>

theorem unsupported_properties_before_END:
  assumes "lastIndexOf (writeDocuments env (exportContacts env c)) ''END:VCARD'' = int n"
    and "0 < n"
  shows "convertContactToVCard env c props
           = take n (writeDocuments env (exportContacts env c))
             @ concat (map (\<lambda>p. p @ CRLF) props)
             @ drop n (writeDocuments env (exportContacts env c))
         \<and> prefix ''END:VCARD'' (drop n (writeDocuments env (exportContacts env c)))
         \<and> lastIndexOf (convertContactToVCard env c props) ''END:VCARD''
             = int (n + length (concat (map (\<lambda>p. p @ CRLF) props)))"
proof -
  let ?doc = "writeDocuments env (exportContacts env c)"
  let ?ins = "concat (map (\<lambda>p. p @ CRLF) props)"
  have out: "convertContactToVCard env c props = take n ?doc @ ?ins @ drop n ?doc"
    unfolding convertContactToVCard_def using assms by (rule foldl_add_unsupported)
  have occ: "prefix ''END:VCARD'' (drop n ?doc)"
    using assms(1) by (simp add: lastIndexOf_iff)
  have "lastIndexOf (insert_at ?doc n ?ins) ''END:VCARD'' = int (n + length ?ins)"
    using assms(1) by (intro lastIndexOf_insert) simp_all
  then have "lastIndexOf (convertContactToVCard env c props) ''END:VCARD''
               = int (n + length ?ins)"
    by (simp only: out insert_at_def)
  with out occ show ?thesis by blast
qed

theorem unsupported_properties_before_END_witness:
  "lastIndexOf (writeDocuments test_env (exportContacts test_env jane)) ''END:VCARD'' = int 70
   \<and> (0::nat) < 70
   \<and> convertContactToVCard test_env jane [''X-CUSTOM-FIELD:foo'', ''X-OTHER:bar'']
       = take 70 (writeDocuments test_env (exportContacts test_env jane))
         @ concat (map (\<lambda>p. p @ CRLF) [''X-CUSTOM-FIELD:foo'', ''X-OTHER:bar''])
         @ drop 70 (writeDocuments test_env (exportContacts test_env jane))
   \<and> prefix ''END:VCARD'' (drop 70 (writeDocuments test_env (exportContacts test_env jane)))
   \<and> lastIndexOf (convertContactToVCard test_env jane [''X-CUSTOM-FIELD:foo'', ''X-OTHER:bar''])
        ''END:VCARD''
       = int (70 + length (concat (map (\<lambda>p. p @ CRLF) [''X-CUSTOM-FIELD:foo'', ''X-OTHER:bar''])))"
proof -
  have h: "lastIndexOf (writeDocuments test_env (exportContacts test_env jane)) ''END:VCARD''
             = int 70"
    by code_simp
  have pos: "(0::nat) < 70" by simp
  from unsupported_properties_before_END
         [OF h pos, of "[''X-CUSTOM-FIELD:foo'', ''X-OTHER:bar'']"] h pos
  show ?thesis by blast
qed

text \<open>
  C9. When the exported document lacks FN or N (no property of the document has that
  name), \<open>contactProcessed\<close> appends exactly the missing ones and nothing else: FN with the
  generated display label as value; N with the value \<open>last;first;;;\<close> taken from the name
  detail after decomposing the display label into it, where the whole label stands for the
  first name if the decomposed first name is empty. A document that has both is left as it
  is; afterwards the document has both, and so has every document the exporter hands to
  the writer. In particular, when the display label is \<open>Jane Q Public\<close> and the
  decomposition gives first name \<open>Jane\<close> and last name \<open>Public\<close>, a document with neither
  property gets \<open>FN\<close> with value \<open>Jane Q Public\<close> and \<open>N\<close> with value \<open>Public;Jane;;;\<close>.
\<close>

theorem export_adds_missing_FN_and_N:
  "contactProcessed env c d =
     d @ (if ''FN'' \<in> prop_name ` set d then []
          else [\<lparr>prop_name = ''FN'', prop_value = generateDisplayLabel env c, prop_params = []\<rparr>])
       @ (if ''N'' \<in> prop_name ` set d then []
          else [\<lparr>prop_name = ''N'',
                 prop_value =
                   lastName (decomposeDisplayLabel env (generateDisplayLabel env c) (name_detail c))
                   @ '';''
                   @ (if firstName (decomposeDisplayLabel env (generateDisplayLabel env c)
                                      (name_detail c)) = []
                      then generateDisplayLabel env c
                      else firstName (decomposeDisplayLabel env (generateDisplayLabel env c)
                                        (name_detail c)))
                   @ '';;;'',
                 prop_params = []\<rparr>])
   \<and> ''FN'' \<in> prop_name ` set (contactProcessed env c d)
   \<and> ''N'' \<in> prop_name ` set (contactProcessed env c d)
   \<and> (\<forall>doc \<in> set (exportContacts env c).
         ''FN'' \<in> prop_name ` set doc \<and> ''N'' \<in> prop_name ` set doc)
   \<and> (generateDisplayLabel env c = ''Jane Q Public''
        \<and> firstName (decomposeDisplayLabel env ''Jane Q Public'' (name_detail c)) = ''Jane''
        \<and> lastName (decomposeDisplayLabel env ''Jane Q Public'' (name_detail c)) = ''Public''
        \<and> ''FN'' \<notin> prop_name ` set d \<and> ''N'' \<notin> prop_name ` set d
      \<longrightarrow> contactProcessed env c d =
            d @ [\<lparr>prop_name = ''FN'', prop_value = ''Jane Q Public'', prop_params = []\<rparr>,
                 \<lparr>prop_name = ''N'', prop_value = ''Public;Jane;;;'', prop_params = []\<rparr>])"
proof -
  have eq: "contactProcessed env c d =
     d @ (if ''FN'' \<in> prop_name ` set d then []
          else [\<lparr>prop_name = ''FN'', prop_value = generateDisplayLabel env c, prop_params = []\<rparr>])
       @ (if ''N'' \<in> prop_name ` set d then []
          else [\<lparr>prop_name = ''N'',
                 prop_value =
                   lastName (decomposeDisplayLabel env (generateDisplayLabel env c) (name_detail c))
                   @ '';''
                   @ (if firstName (decomposeDisplayLabel env (generateDisplayLabel env c)
                                      (name_detail c)) = []
                      then generateDisplayLabel env c
                      else firstName (decomposeDisplayLabel env (generateDisplayLabel env c)
                                        (name_detail c)))
                   @ '';;;'',
                 prop_params = []\<rparr>])" for d
    by (simp add: contactProcessed_def found_property_iff Let_def)
  have has: "''FN'' \<in> prop_name ` set (contactProcessed env c d)
             \<and> ''N'' \<in> prop_name ` set (contactProcessed env c d)" for d
    by (simp add: eq)
  have docs: "\<forall>doc \<in> set (exportContacts env c).
         ''FN'' \<in> prop_name ` set doc \<and> ''N'' \<in> prop_name ` set doc"
    unfolding exportContacts_def using has by auto
  show ?thesis
    using has [of d] docs by (simp add: eq)
qed

theorem export_adds_missing_FN_and_N_witness:
  "generateDisplayLabel test_env jane = ''Jane Q Public''
   \<and> firstName (decomposeDisplayLabel test_env ''Jane Q Public'' (name_detail jane)) = ''Jane''
   \<and> lastName (decomposeDisplayLabel test_env ''Jane Q Public'' (name_detail jane)) = ''Public''
   \<and> ''FN'' \<notin> prop_name ` set jane_card
   \<and> ''N'' \<notin> prop_name ` set jane_card
   \<and> contactProcessed test_env jane jane_card =
        jane_card @ [\<lparr>prop_name = ''FN'', prop_value = ''Jane Q Public'', prop_params = []\<rparr>,
           \<lparr>prop_name = ''N'', prop_value = ''Public;Jane;;;'', prop_params = []\<rparr>]
   \<and> convertContactToVCard test_env jane []
       = ''BEGIN:VCARD'' @ CRLF @ ''VERSION:3.0'' @ CRLF @ ''UID:u1'' @ CRLF
         @ ''FN:Jane Q Public'' @ CRLF @ ''N:Public;Jane;;;'' @ CRLF @ ''END:VCARD'' @ CRLF"
proof -
  have a: "generateDisplayLabel test_env jane = ''Jane Q Public''"
    by (simp add: test_env_def jane_def)
  have b: "firstName (decomposeDisplayLabel test_env ''Jane Q Public'' (name_detail jane)) = ''Jane''"
    by (simp add: test_env_def jane_def test_decomposeDisplayLabel_def)
  have c: "lastName (decomposeDisplayLabel test_env ''Jane Q Public'' (name_detail jane)) = ''Public''"
    by (simp add: test_env_def jane_def test_decomposeDisplayLabel_def)
  have d: "''FN'' \<notin> prop_name ` set jane_card" "''N'' \<notin> prop_name ` set jane_card"
    by (simp_all add: jane_card_def)
  have t: "convertContactToVCard test_env jane []
       = ''BEGIN:VCARD'' @ CRLF @ ''VERSION:3.0'' @ CRLF @ ''UID:u1'' @ CRLF
         @ ''FN:Jane Q Public'' @ CRLF @ ''N:Public;Jane;;;'' @ CRLF @ ''END:VCARD'' @ CRLF"
    by code_simp
  from export_adds_missing_FN_and_N [of test_env jane jane_card] a b c d
  have "contactProcessed test_env jane jane_card =
        jane_card @ [\<lparr>prop_name = ''FN'', prop_value = ''Jane Q Public'', prop_params = []\<rparr>,
           \<lparr>prop_name = ''N'', prop_value = ''Public;Jane;;;'', prop_params = []\<rparr>]"
    by blast
  with a b c d t show ?thesis by blast
qed

text \<open>
  C10. The GUID transformation of the upsync is idempotent: for every guid, account id and
  address-book URL, transforming the output again (same account, same address book) gives
  the output back, and every guid that already starts with the account id followed by
  \<open>:AB:\<close> is returned as it is.
\<close>

theorem transform_guid_idempotent:
  "transformIntoAddressbookSpecificGuid (transformIntoAddressbookSpecificGuid g a u) a u
     = transformIntoAddressbookSpecificGuid g a u
   \<and> (prefix (QString_number a @ '':AB:'') g' \<longrightarrow>
        transformIntoAddressbookSpecificGuid g' a u = g')"
  by (simp add: transformIntoAddressbookSpecificGuid_def)

theorem transform_guid_idempotent_witness:
  "transformIntoAddressbookSpecificGuid ''7:u1'' 7 ''/ab'' = ''7:AB:/ab:u1''
   \<and> transformIntoAddressbookSpecificGuid ''7:AB:/ab:u1'' 7 ''/ab'' = ''7:AB:/ab:u1''
   \<and> prefix (QString_number 7 @ '':AB:'') ''7:AB:/other:u2''
   \<and> transformIntoAddressbookSpecificGuid ''7:AB:/other:u2'' 7 ''/ab'' = ''7:AB:/other:u2''"
proof -
  have n: "QString_number 7 = ''7''"
    by code_simp
  have t: "transformIntoAddressbookSpecificGuid ''7:u1'' 7 ''/ab'' = ''7:AB:/ab:u1''"
    by (simp add: transformIntoAddressbookSpecificGuid_def guid_prefix_def mid_def n)
  have p: "prefix (QString_number 7 @ '':AB:'') ''7:AB:/other:u2''"
    by (simp add: n)
  from transform_guid_idempotent [of "''7:u1''" 7 "''/ab''" "''7:AB:/other:u2''"] t p
  show ?thesis by simp
qed

end
